theory Spec2Isabelle
  imports Complex_Main "HOL-Library.Sublist" "HOL-Library.Word"
begin

section \<open>Data model of the background detection hook\<close>

text \<open>
  The hook \<^verbatim>\<open>useBackgroundDetection(settings, onEmergencyDetected)\<close> keeps two React state
  cells (\<^verbatim>\<open>isBackgroundActive\<close>, \<^verbatim>\<open>detectionStatus\<close>) and three refs, and it talks to the
  browser: speech recognition engines, \<^verbatim>\<open>devicemotion\<close> listeners on \<^verbatim>\<open>window\<close>, camera tracks,
  timers and toasts. All of it is one explicit state, the record \<open>world\<close>; every function
  of the hook takes the state and returns the new one.
\<close>

text \<open>
  A JavaScript string is a sequence of UTF-16 code units. The keywords and the transcripts
  are such strings; the fixed texts of toasts and notifications are written as literals.
\<close>

type_synonym jsString = "16 word list"

record detectionSettings =
  voiceEnabled :: bool
  blinkEnabled :: bool
  gestureEnabled :: bool
  motionEnabled :: bool
  voiceSensitivity :: real
  motionSensitivity :: real
  emergencyKeywords :: "jsString list"

record detectionStatus =
  voice :: bool
  motion :: bool
  camera :: bool

record toast =
  title :: string
  description :: string
  variant :: "string option"

text \<open>
  A function of the hook is a closure of one render: it sees the \<^verbatim>\<open>settings\<close> argument and the
  \<^verbatim>\<open>const isBackgroundActive\<close> of the render that created it, not the state cell. The record
  \<open>render\<close> holds these two captured values.
\<close>

record render =
  capturedActive :: bool
  capturedSettings :: "detectionSettings option"

text \<open>A recognition object: its identity and the render its handlers were created in.\<close>

record recognition =
  recId :: nat
  recRender :: render

text \<open>
  A \<^verbatim>\<open>handleMotion\<close> closure: its identity, its constant \<^verbatim>\<open>shakeThreshold\<close> and its mutable
  variable \<^verbatim>\<open>lastShakeTime\<close> (milliseconds, as \<^verbatim>\<open>Date.now()\<close> gives them).
\<close>

record motionListener =
  listenerId :: nat
  shakeThreshold :: real
  lastShakeTime :: int

record world =
  isBackgroundActive :: bool
  currentStatus :: detectionStatus
  speechRecognitionRef :: "recognition option"
  motionListenerRef :: "nat option"
  videoStreamRef :: "nat list option"
  startedEngines :: "nat list"
  motionListeners :: "motionListener list"
  liveTracks :: "nat list"
  timers :: "(int \<times> recognition) list"
  toasts :: "toast list"
  emergencyCalls :: nat
  nextId :: nat

text \<open>
  \<open>currentStatus\<close> is the state cell \<^verbatim>\<open>detectionStatus\<close>; \<open>motionListenerRef\<close> holds the identity
  of the tracked listener and \<open>videoStreamRef\<close> the tracks of the tracked stream;
  \<open>startedEngines\<close>, \<open>motionListeners\<close> and \<open>liveTracks\<close> are the browser's side: the engines
  that are listening, the listeners attached to \<^verbatim>\<open>window\<close> and the camera tracks that are
  live. \<open>timers\<close> are the pending \<^verbatim>\<open>setTimeout\<close> callbacks (delay in milliseconds and the
  recognition object to restart), \<open>emergencyCalls\<close> counts the invocations of
  \<^verbatim>\<open>onEmergencyDetected\<close>, and \<open>nextId\<close> gives every new object a fresh identity.
\<close>

definition noStatus :: detectionStatus where
  "noStatus = \<lparr>voice = False, motion = False, camera = False\<rparr>"

definition initialWorld :: world where
  "initialWorld =
     \<lparr>isBackgroundActive = False, currentStatus = noStatus,
      speechRecognitionRef = None, motionListenerRef = None, videoStreamRef = None,
      startedEngines = [], motionListeners = [], liveTracks = [], timers = [],
      toasts = [], emergencyCalls = 0, nextId = 0\<rparr>"

definition addToast :: "toast \<Rightarrow> world \<Rightarrow> world" where
  "addToast t w = w\<lparr>toasts := toasts w @ [t]\<rparr>"

definition onEmergencyDetected :: "world \<Rightarrow> world" where
  "onEmergencyDetected w = w\<lparr>emergencyCalls := emergencyCalls w + 1\<rparr>"

text \<open>What the browser offers, and what it answers to the requests the hook awaits.\<close>

record host =
  speechAvailable :: bool
  speechThrows :: bool
  motionPermissionGated :: bool
  notificationDefault :: bool

datatype permissionResult = Granted | Denied | PermissionRejected

datatype mediaResult = MediaStream nat | NotAllowedError | OtherMediaError

datatype jsError = TypeError

section \<open>Voice channel\<close>

record speechRecognitionAlternative =
  transcript :: jsString
  confidence :: real

type_synonym speechRecognitionResult = "speechRecognitionAlternative list"

subsection \<open>The builtin \<^verbatim>\<open>String.prototype.toLowerCase\<close>\<close>

text \<open>
  The builtin reads the string as code points (a high surrogate followed by a low one is
  one code point, any other code unit stands for itself), maps them to lower case by the
  locale-insensitive mappings of the Unicode Character Database, and writes the result back
  as code units.
\<close>

definition isHighSurrogate :: "16 word \<Rightarrow> bool" where
  "isHighSurrogate u = (0xD800 \<le> u \<and> u \<le> 0xDBFF)"

definition isLowSurrogate :: "16 word \<Rightarrow> bool" where
  "isLowSurrogate u = (0xDC00 \<le> u \<and> u \<le> 0xDFFF)"

fun codePoints :: "jsString \<Rightarrow> nat list" where
  "codePoints (u # v # us) =
     (if isHighSurrogate u \<and> isLowSurrogate v
      then (0x10000 + (unat u - 0xD800) * 0x400 + (unat v - 0xDC00)) # codePoints us
      else unat u # codePoints (v # us))"
| "codePoints [u] = [unat u]"
| "codePoints [] = []"

definition codeUnits :: "nat \<Rightarrow> jsString" where
  "codeUnits cp =
     (if cp < 0x10000 then [of_nat cp]
      else [of_nat (0xD800 + (cp - 0x10000) div 0x400),
            of_nat (0xDC00 + (cp - 0x10000) mod 0x400)])"

text \<open>
  The simple lower-case mappings of \<^verbatim>\<open>UnicodeData.txt\<close> (version 14.0) beyond the letters A
  to Z. An entry \<open>(lo, hi, step, tlo)\<close> maps every code point \<open>lo + k * step\<close> up to \<open>hi\<close> to
  \<open>tlo + k * step\<close>.
\<close>

definition lowerTable :: "(nat \<times> nat \<times> nat \<times> nat) list" where
  "lowerTable =
     [(0xC0, 0xD6, 1, 0xE0), (0xD8, 0xDE, 1, 0xF8), (0x100, 0x12E, 2, 0x101),
      (0x132, 0x136, 2, 0x133), (0x139, 0x147, 2, 0x13A), (0x14A, 0x176, 2, 0x14B),
      (0x178, 0x178, 1, 0xFF), (0x179, 0x17D, 2, 0x17A), (0x181, 0x181, 1, 0x253),
      (0x182, 0x184, 2, 0x183), (0x186, 0x186, 1, 0x254), (0x187, 0x187, 1, 0x188),
      (0x189, 0x18A, 1, 0x256), (0x18B, 0x18B, 1, 0x18C), (0x18E, 0x18E, 1, 0x1DD),
      (0x18F, 0x18F, 1, 0x259), (0x190, 0x190, 1, 0x25B), (0x191, 0x191, 1, 0x192),
      (0x193, 0x193, 1, 0x260), (0x194, 0x194, 1, 0x263), (0x196, 0x196, 1, 0x269),
      (0x197, 0x197, 1, 0x268), (0x198, 0x198, 1, 0x199), (0x19C, 0x19C, 1, 0x26F),
      (0x19D, 0x19D, 1, 0x272), (0x19F, 0x19F, 1, 0x275), (0x1A0, 0x1A4, 2, 0x1A1),
      (0x1A6, 0x1A6, 1, 0x280), (0x1A7, 0x1A7, 1, 0x1A8), (0x1A9, 0x1A9, 1, 0x283),
      (0x1AC, 0x1AC, 1, 0x1AD), (0x1AE, 0x1AE, 1, 0x288), (0x1AF, 0x1AF, 1, 0x1B0),
      (0x1B1, 0x1B2, 1, 0x28A), (0x1B3, 0x1B5, 2, 0x1B4), (0x1B7, 0x1B7, 1, 0x292),
      (0x1B8, 0x1B8, 1, 0x1B9), (0x1BC, 0x1BC, 1, 0x1BD), (0x1C4, 0x1C4, 1, 0x1C6),
      (0x1C5, 0x1C5, 1, 0x1C6), (0x1C7, 0x1C7, 1, 0x1C9), (0x1C8, 0x1C8, 1, 0x1C9),
      (0x1CA, 0x1CA, 1, 0x1CC), (0x1CB, 0x1DB, 2, 0x1CC), (0x1DE, 0x1EE, 2, 0x1DF),
      (0x1F1, 0x1F1, 1, 0x1F3), (0x1F2, 0x1F4, 2, 0x1F3), (0x1F6, 0x1F6, 1, 0x195),
      (0x1F7, 0x1F7, 1, 0x1BF), (0x1F8, 0x21E, 2, 0x1F9), (0x220, 0x220, 1, 0x19E),
      (0x222, 0x232, 2, 0x223), (0x23A, 0x23A, 1, 0x2C65), (0x23B, 0x23B, 1, 0x23C),
      (0x23D, 0x23D, 1, 0x19A), (0x23E, 0x23E, 1, 0x2C66), (0x241, 0x241, 1, 0x242),
      (0x243, 0x243, 1, 0x180), (0x244, 0x244, 1, 0x289), (0x245, 0x245, 1, 0x28C),
      (0x246, 0x24E, 2, 0x247), (0x370, 0x372, 2, 0x371), (0x376, 0x376, 1, 0x377),
      (0x37F, 0x37F, 1, 0x3F3), (0x386, 0x386, 1, 0x3AC), (0x388, 0x38A, 1, 0x3AD),
      (0x38C, 0x38C, 1, 0x3CC), (0x38E, 0x38F, 1, 0x3CD), (0x391, 0x3A1, 1, 0x3B1),
      (0x3A3, 0x3AB, 1, 0x3C3), (0x3CF, 0x3CF, 1, 0x3D7), (0x3D8, 0x3EE, 2, 0x3D9),
      (0x3F4, 0x3F4, 1, 0x3B8), (0x3F7, 0x3F7, 1, 0x3F8), (0x3F9, 0x3F9, 1, 0x3F2),
      (0x3FA, 0x3FA, 1, 0x3FB), (0x3FD, 0x3FF, 1, 0x37B), (0x400, 0x40F, 1, 0x450),
      (0x410, 0x42F, 1, 0x430), (0x460, 0x480, 2, 0x461), (0x48A, 0x4BE, 2, 0x48B),
      (0x4C0, 0x4C0, 1, 0x4CF), (0x4C1, 0x4CD, 2, 0x4C2), (0x4D0, 0x52E, 2, 0x4D1),
      (0x531, 0x556, 1, 0x561), (0x10A0, 0x10C5, 1, 0x2D00), (0x10C7, 0x10C7, 1, 0x2D27),
      (0x10CD, 0x10CD, 1, 0x2D2D), (0x13A0, 0x13EF, 1, 0xAB70), (0x13F0, 0x13F5, 1, 0x13F8),
      (0x1C90, 0x1CBA, 1, 0x10D0), (0x1CBD, 0x1CBF, 1, 0x10FD), (0x1E00, 0x1E94, 2, 0x1E01),
      (0x1E9E, 0x1E9E, 1, 0xDF), (0x1EA0, 0x1EFE, 2, 0x1EA1), (0x1F08, 0x1F0F, 1, 0x1F00),
      (0x1F18, 0x1F1D, 1, 0x1F10), (0x1F28, 0x1F2F, 1, 0x1F20), (0x1F38, 0x1F3F, 1, 0x1F30),
      (0x1F48, 0x1F4D, 1, 0x1F40), (0x1F59, 0x1F5F, 2, 0x1F51), (0x1F68, 0x1F6F, 1, 0x1F60),
      (0x1F88, 0x1F8F, 1, 0x1F80), (0x1F98, 0x1F9F, 1, 0x1F90), (0x1FA8, 0x1FAF, 1, 0x1FA0),
      (0x1FB8, 0x1FB9, 1, 0x1FB0), (0x1FBA, 0x1FBB, 1, 0x1F70), (0x1FBC, 0x1FBC, 1, 0x1FB3),
      (0x1FC8, 0x1FCB, 1, 0x1F72), (0x1FCC, 0x1FCC, 1, 0x1FC3), (0x1FD8, 0x1FD9, 1, 0x1FD0),
      (0x1FDA, 0x1FDB, 1, 0x1F76), (0x1FE8, 0x1FE9, 1, 0x1FE0), (0x1FEA, 0x1FEB, 1, 0x1F7A),
      (0x1FEC, 0x1FEC, 1, 0x1FE5), (0x1FF8, 0x1FF9, 1, 0x1F78), (0x1FFA, 0x1FFB, 1, 0x1F7C),
      (0x1FFC, 0x1FFC, 1, 0x1FF3), (0x2126, 0x2126, 1, 0x3C9), (0x212A, 0x212A, 1, 0x6B),
      (0x212B, 0x212B, 1, 0xE5), (0x2132, 0x2132, 1, 0x214E), (0x2160, 0x216F, 1, 0x2170),
      (0x2183, 0x2183, 1, 0x2184), (0x24B6, 0x24CF, 1, 0x24D0), (0x2C00, 0x2C2F, 1, 0x2C30),
      (0x2C60, 0x2C60, 1, 0x2C61), (0x2C62, 0x2C62, 1, 0x26B), (0x2C63, 0x2C63, 1, 0x1D7D),
      (0x2C64, 0x2C64, 1, 0x27D), (0x2C67, 0x2C6B, 2, 0x2C68), (0x2C6D, 0x2C6D, 1, 0x251),
      (0x2C6E, 0x2C6E, 1, 0x271), (0x2C6F, 0x2C6F, 1, 0x250), (0x2C70, 0x2C70, 1, 0x252),
      (0x2C72, 0x2C72, 1, 0x2C73), (0x2C75, 0x2C75, 1, 0x2C76), (0x2C7E, 0x2C7F, 1, 0x23F),
      (0x2C80, 0x2CE2, 2, 0x2C81), (0x2CEB, 0x2CED, 2, 0x2CEC), (0x2CF2, 0x2CF2, 1, 0x2CF3),
      (0xA640, 0xA66C, 2, 0xA641), (0xA680, 0xA69A, 2, 0xA681), (0xA722, 0xA72E, 2, 0xA723),
      (0xA732, 0xA76E, 2, 0xA733), (0xA779, 0xA77B, 2, 0xA77A), (0xA77D, 0xA77D, 1, 0x1D79),
      (0xA77E, 0xA786, 2, 0xA77F), (0xA78B, 0xA78B, 1, 0xA78C), (0xA78D, 0xA78D, 1, 0x265),
      (0xA790, 0xA792, 2, 0xA791), (0xA796, 0xA7A8, 2, 0xA797), (0xA7AA, 0xA7AA, 1, 0x266),
      (0xA7AB, 0xA7AB, 1, 0x25C), (0xA7AC, 0xA7AC, 1, 0x261), (0xA7AD, 0xA7AD, 1, 0x26C),
      (0xA7AE, 0xA7AE, 1, 0x26A), (0xA7B0, 0xA7B0, 1, 0x29E), (0xA7B1, 0xA7B1, 1, 0x287),
      (0xA7B2, 0xA7B2, 1, 0x29D), (0xA7B3, 0xA7B3, 1, 0xAB53), (0xA7B4, 0xA7C2, 2, 0xA7B5),
      (0xA7C4, 0xA7C4, 1, 0xA794), (0xA7C5, 0xA7C5, 1, 0x282), (0xA7C6, 0xA7C6, 1, 0x1D8E),
      (0xA7C7, 0xA7C9, 2, 0xA7C8), (0xA7D0, 0xA7D0, 1, 0xA7D1), (0xA7D6, 0xA7D8, 2, 0xA7D7),
      (0xA7F5, 0xA7F5, 1, 0xA7F6), (0xFF21, 0xFF3A, 1, 0xFF41), (0x10400, 0x10427, 1, 0x10428),
      (0x104B0, 0x104D3, 1, 0x104D8), (0x10570, 0x1057A, 1, 0x10597), (0x1057C, 0x1058A, 1, 0x105A3),
      (0x1058C, 0x10592, 1, 0x105B3), (0x10594, 0x10595, 1, 0x105BB), (0x10C80, 0x10CB2, 1, 0x10CC0),
      (0x118A0, 0x118BF, 1, 0x118C0), (0x16E40, 0x16E5F, 1, 0x16E60), (0x1E900, 0x1E921, 1, 0x1E922)]"

text \<open>
  The code points that are cased and not case-ignorable, and the case-ignorable ones
  (\<^verbatim>\<open>DerivedCoreProperties.txt\<close>, version 14.0), as inclusive ranges. Only the rule for a
  final sigma reads them.
\<close>

definition casedTable :: "(nat \<times> nat) list" where
  "casedTable =
     [(0x41, 0x5A), (0x61, 0x7A), (0xAA, 0xAA), (0xB5, 0xB5), (0xBA, 0xBA),
      (0xC0, 0xD6), (0xD8, 0xF6), (0xF8, 0x1BA), (0x1BC, 0x1BF), (0x1C4, 0x293),
      (0x295, 0x2AF), (0x370, 0x373), (0x376, 0x377), (0x37B, 0x37D), (0x37F, 0x37F),
      (0x386, 0x386), (0x388, 0x38A), (0x38C, 0x38C), (0x38E, 0x3A1), (0x3A3, 0x3F5),
      (0x3F7, 0x481), (0x48A, 0x52F), (0x531, 0x556), (0x560, 0x588), (0x10A0, 0x10C5),
      (0x10C7, 0x10C7), (0x10CD, 0x10CD), (0x10D0, 0x10FA), (0x10FD, 0x10FF), (0x13A0, 0x13F5),
      (0x13F8, 0x13FD), (0x1C80, 0x1C88), (0x1C90, 0x1CBA), (0x1CBD, 0x1CBF), (0x1D00, 0x1D2B),
      (0x1D6B, 0x1D77), (0x1D79, 0x1D9A), (0x1E00, 0x1F15), (0x1F18, 0x1F1D), (0x1F20, 0x1F45),
      (0x1F48, 0x1F4D), (0x1F50, 0x1F57), (0x1F59, 0x1F59), (0x1F5B, 0x1F5B), (0x1F5D, 0x1F5D),
      (0x1F5F, 0x1F7D), (0x1F80, 0x1FB4), (0x1FB6, 0x1FBC), (0x1FBE, 0x1FBE), (0x1FC2, 0x1FC4),
      (0x1FC6, 0x1FCC), (0x1FD0, 0x1FD3), (0x1FD6, 0x1FDB), (0x1FE0, 0x1FEC), (0x1FF2, 0x1FF4),
      (0x1FF6, 0x1FFC), (0x2102, 0x2102), (0x2107, 0x2107), (0x210A, 0x2113), (0x2115, 0x2115),
      (0x2119, 0x211D), (0x2124, 0x2124), (0x2126, 0x2126), (0x2128, 0x2128), (0x212A, 0x212D),
      (0x212F, 0x2134), (0x2139, 0x2139), (0x213C, 0x213F), (0x2145, 0x2149), (0x214E, 0x214E),
      (0x2160, 0x217F), (0x2183, 0x2184), (0x24B6, 0x24E9), (0x2C00, 0x2C7B), (0x2C7E, 0x2CE4),
      (0x2CEB, 0x2CEE), (0x2CF2, 0x2CF3), (0x2D00, 0x2D25), (0x2D27, 0x2D27), (0x2D2D, 0x2D2D),
      (0xA640, 0xA66D), (0xA680, 0xA69B), (0xA722, 0xA76F), (0xA771, 0xA787), (0xA78B, 0xA78E),
      (0xA790, 0xA7CA), (0xA7D0, 0xA7D1), (0xA7D3, 0xA7D3), (0xA7D5, 0xA7D9), (0xA7F5, 0xA7F6),
      (0xA7FA, 0xA7FA), (0xAB30, 0xAB5A), (0xAB60, 0xAB68), (0xAB70, 0xABBF), (0xFB00, 0xFB06),
      (0xFB13, 0xFB17), (0xFF21, 0xFF3A), (0xFF41, 0xFF5A), (0x10400, 0x1044F), (0x104B0, 0x104D3),
      (0x104D8, 0x104FB), (0x10570, 0x1057A), (0x1057C, 0x1058A), (0x1058C, 0x10592), (0x10594, 0x10595),
      (0x10597, 0x105A1), (0x105A3, 0x105B1), (0x105B3, 0x105B9), (0x105BB, 0x105BC), (0x10C80, 0x10CB2),
      (0x10CC0, 0x10CF2), (0x118A0, 0x118DF), (0x16E40, 0x16E7F), (0x1D400, 0x1D454), (0x1D456, 0x1D49C),
      (0x1D49E, 0x1D49F), (0x1D4A2, 0x1D4A2), (0x1D4A5, 0x1D4A6), (0x1D4A9, 0x1D4AC), (0x1D4AE, 0x1D4B9),
      (0x1D4BB, 0x1D4BB), (0x1D4BD, 0x1D4C3), (0x1D4C5, 0x1D505), (0x1D507, 0x1D50A), (0x1D50D, 0x1D514),
      (0x1D516, 0x1D51C), (0x1D51E, 0x1D539), (0x1D53B, 0x1D53E), (0x1D540, 0x1D544), (0x1D546, 0x1D546),
      (0x1D54A, 0x1D550), (0x1D552, 0x1D6A5), (0x1D6A8, 0x1D6C0), (0x1D6C2, 0x1D6DA), (0x1D6DC, 0x1D6FA),
      (0x1D6FC, 0x1D714), (0x1D716, 0x1D734), (0x1D736, 0x1D74E), (0x1D750, 0x1D76E), (0x1D770, 0x1D788),
      (0x1D78A, 0x1D7A8), (0x1D7AA, 0x1D7C2), (0x1D7C4, 0x1D7CB), (0x1DF00, 0x1DF09), (0x1DF0B, 0x1DF1E),
      (0x1E900, 0x1E943), (0x1F130, 0x1F149), (0x1F150, 0x1F169), (0x1F170, 0x1F189)]"

definition caseIgnorableTable :: "(nat \<times> nat) list" where
  "caseIgnorableTable =
     [(0x27, 0x27), (0x2E, 0x2E), (0x3A, 0x3A), (0x5E, 0x5E), (0x60, 0x60),
      (0xA8, 0xA8), (0xAD, 0xAD), (0xAF, 0xAF), (0xB4, 0xB4), (0xB7, 0xB8),
      (0x2B0, 0x36F), (0x374, 0x375), (0x37A, 0x37A), (0x384, 0x385), (0x387, 0x387),
      (0x483, 0x489), (0x559, 0x559), (0x55F, 0x55F), (0x591, 0x5BD), (0x5BF, 0x5BF),
      (0x5C1, 0x5C2), (0x5C4, 0x5C5), (0x5C7, 0x5C7), (0x5F4, 0x5F4), (0x600, 0x605),
      (0x610, 0x61A), (0x61C, 0x61C), (0x640, 0x640), (0x64B, 0x65F), (0x670, 0x670),
      (0x6D6, 0x6DD), (0x6DF, 0x6E8), (0x6EA, 0x6ED), (0x70F, 0x70F), (0x711, 0x711),
      (0x730, 0x74A), (0x7A6, 0x7B0), (0x7EB, 0x7F5), (0x7FA, 0x7FA), (0x7FD, 0x7FD),
      (0x816, 0x82D), (0x859, 0x85B), (0x888, 0x888), (0x890, 0x891), (0x898, 0x89F),
      (0x8C9, 0x902), (0x93A, 0x93A), (0x93C, 0x93C), (0x941, 0x948), (0x94D, 0x94D),
      (0x951, 0x957), (0x962, 0x963), (0x971, 0x971), (0x981, 0x981), (0x9BC, 0x9BC),
      (0x9C1, 0x9C4), (0x9CD, 0x9CD), (0x9E2, 0x9E3), (0x9FE, 0x9FE), (0xA01, 0xA02),
      (0xA3C, 0xA3C), (0xA41, 0xA42), (0xA47, 0xA48), (0xA4B, 0xA4D), (0xA51, 0xA51),
      (0xA70, 0xA71), (0xA75, 0xA75), (0xA81, 0xA82), (0xABC, 0xABC), (0xAC1, 0xAC5),
      (0xAC7, 0xAC8), (0xACD, 0xACD), (0xAE2, 0xAE3), (0xAFA, 0xAFF), (0xB01, 0xB01),
      (0xB3C, 0xB3C), (0xB3F, 0xB3F), (0xB41, 0xB44), (0xB4D, 0xB4D), (0xB55, 0xB56),
      (0xB62, 0xB63), (0xB82, 0xB82), (0xBC0, 0xBC0), (0xBCD, 0xBCD), (0xC00, 0xC00),
      (0xC04, 0xC04), (0xC3C, 0xC3C), (0xC3E, 0xC40), (0xC46, 0xC48), (0xC4A, 0xC4D),
      (0xC55, 0xC56), (0xC62, 0xC63), (0xC81, 0xC81), (0xCBC, 0xCBC), (0xCBF, 0xCBF),
      (0xCC6, 0xCC6), (0xCCC, 0xCCD), (0xCE2, 0xCE3), (0xD00, 0xD01), (0xD3B, 0xD3C),
      (0xD41, 0xD44), (0xD4D, 0xD4D), (0xD62, 0xD63), (0xD81, 0xD81), (0xDCA, 0xDCA),
      (0xDD2, 0xDD4), (0xDD6, 0xDD6), (0xE31, 0xE31), (0xE34, 0xE3A), (0xE46, 0xE4E),
      (0xEB1, 0xEB1), (0xEB4, 0xEBC), (0xEC6, 0xEC6), (0xEC8, 0xECD), (0xF18, 0xF19),
      (0xF35, 0xF35), (0xF37, 0xF37), (0xF39, 0xF39), (0xF71, 0xF7E), (0xF80, 0xF84),
      (0xF86, 0xF87), (0xF8D, 0xF97), (0xF99, 0xFBC), (0xFC6, 0xFC6), (0x102D, 0x1030),
      (0x1032, 0x1037), (0x1039, 0x103A), (0x103D, 0x103E), (0x1058, 0x1059), (0x105E, 0x1060),
      (0x1071, 0x1074), (0x1082, 0x1082), (0x1085, 0x1086), (0x108D, 0x108D), (0x109D, 0x109D),
      (0x10FC, 0x10FC), (0x135D, 0x135F), (0x1712, 0x1714), (0x1732, 0x1733), (0x1752, 0x1753),
      (0x1772, 0x1773), (0x17B4, 0x17B5), (0x17B7, 0x17BD), (0x17C6, 0x17C6), (0x17C9, 0x17D3),
      (0x17D7, 0x17D7), (0x17DD, 0x17DD), (0x180B, 0x180F), (0x1843, 0x1843), (0x1885, 0x1886),
      (0x18A9, 0x18A9), (0x1920, 0x1922), (0x1927, 0x1928), (0x1932, 0x1932), (0x1939, 0x193B),
      (0x1A17, 0x1A18), (0x1A1B, 0x1A1B), (0x1A56, 0x1A56), (0x1A58, 0x1A5E), (0x1A60, 0x1A60),
      (0x1A62, 0x1A62), (0x1A65, 0x1A6C), (0x1A73, 0x1A7C), (0x1A7F, 0x1A7F), (0x1AA7, 0x1AA7),
      (0x1AB0, 0x1ACE), (0x1B00, 0x1B03), (0x1B34, 0x1B34), (0x1B36, 0x1B3A), (0x1B3C, 0x1B3C),
      (0x1B42, 0x1B42), (0x1B6B, 0x1B73), (0x1B80, 0x1B81), (0x1BA2, 0x1BA5), (0x1BA8, 0x1BA9),
      (0x1BAB, 0x1BAD), (0x1BE6, 0x1BE6), (0x1BE8, 0x1BE9), (0x1BED, 0x1BED), (0x1BEF, 0x1BF1),
      (0x1C2C, 0x1C33), (0x1C36, 0x1C37), (0x1C78, 0x1C7D), (0x1CD0, 0x1CD2), (0x1CD4, 0x1CE0),
      (0x1CE2, 0x1CE8), (0x1CED, 0x1CED), (0x1CF4, 0x1CF4), (0x1CF8, 0x1CF9), (0x1D2C, 0x1D6A),
      (0x1D78, 0x1D78), (0x1D9B, 0x1DFF), (0x1FBD, 0x1FBD), (0x1FBF, 0x1FC1), (0x1FCD, 0x1FCF),
      (0x1FDD, 0x1FDF), (0x1FED, 0x1FEF), (0x1FFD, 0x1FFE), (0x200B, 0x200F), (0x2018, 0x2019),
      (0x2024, 0x2024), (0x2027, 0x2027), (0x202A, 0x202E), (0x2060, 0x2064), (0x2066, 0x206F),
      (0x2071, 0x2071), (0x207F, 0x207F), (0x2090, 0x209C), (0x20D0, 0x20F0), (0x2C7C, 0x2C7D),
      (0x2CEF, 0x2CF1), (0x2D6F, 0x2D6F), (0x2D7F, 0x2D7F), (0x2DE0, 0x2DFF), (0x2E2F, 0x2E2F),
      (0x3005, 0x3005), (0x302A, 0x302D), (0x3031, 0x3035), (0x303B, 0x303B), (0x3099, 0x309E),
      (0x30FC, 0x30FE), (0xA015, 0xA015), (0xA4F8, 0xA4FD), (0xA60C, 0xA60C), (0xA66F, 0xA672),
      (0xA674, 0xA67D), (0xA67F, 0xA67F), (0xA69C, 0xA69F), (0xA6F0, 0xA6F1), (0xA700, 0xA721),
      (0xA770, 0xA770), (0xA788, 0xA78A), (0xA7F2, 0xA7F4), (0xA7F8, 0xA7F9), (0xA802, 0xA802),
      (0xA806, 0xA806), (0xA80B, 0xA80B), (0xA825, 0xA826), (0xA82C, 0xA82C), (0xA8C4, 0xA8C5),
      (0xA8E0, 0xA8F1), (0xA8FF, 0xA8FF), (0xA926, 0xA92D), (0xA947, 0xA951), (0xA980, 0xA982),
      (0xA9B3, 0xA9B3), (0xA9B6, 0xA9B9), (0xA9BC, 0xA9BD), (0xA9CF, 0xA9CF), (0xA9E5, 0xA9E6),
      (0xAA29, 0xAA2E), (0xAA31, 0xAA32), (0xAA35, 0xAA36), (0xAA43, 0xAA43), (0xAA4C, 0xAA4C),
      (0xAA70, 0xAA70), (0xAA7C, 0xAA7C), (0xAAB0, 0xAAB0), (0xAAB2, 0xAAB4), (0xAAB7, 0xAAB8),
      (0xAABE, 0xAABF), (0xAAC1, 0xAAC1), (0xAADD, 0xAADD), (0xAAEC, 0xAAED), (0xAAF3, 0xAAF4),
      (0xAAF6, 0xAAF6), (0xAB5B, 0xAB5F), (0xAB69, 0xAB6B), (0xABE5, 0xABE5), (0xABE8, 0xABE8),
      (0xABED, 0xABED), (0xFB1E, 0xFB1E), (0xFBB2, 0xFBC2), (0xFE00, 0xFE0F), (0xFE13, 0xFE13),
      (0xFE20, 0xFE2F), (0xFE52, 0xFE52), (0xFE55, 0xFE55), (0xFEFF, 0xFEFF), (0xFF07, 0xFF07),
      (0xFF0E, 0xFF0E), (0xFF1A, 0xFF1A), (0xFF3E, 0xFF3E), (0xFF40, 0xFF40), (0xFF70, 0xFF70),
      (0xFF9E, 0xFF9F), (0xFFE3, 0xFFE3), (0xFFF9, 0xFFFB), (0x101FD, 0x101FD), (0x102E0, 0x102E0),
      (0x10376, 0x1037A), (0x10780, 0x10785), (0x10787, 0x107B0), (0x107B2, 0x107BA), (0x10A01, 0x10A03),
      (0x10A05, 0x10A06), (0x10A0C, 0x10A0F), (0x10A38, 0x10A3A), (0x10A3F, 0x10A3F), (0x10AE5, 0x10AE6),
      (0x10D24, 0x10D27), (0x10EAB, 0x10EAC), (0x10F46, 0x10F50), (0x10F82, 0x10F85), (0x11001, 0x11001),
      (0x11038, 0x11046), (0x11070, 0x11070), (0x11073, 0x11074), (0x1107F, 0x11081), (0x110B3, 0x110B6),
      (0x110B9, 0x110BA), (0x110BD, 0x110BD), (0x110C2, 0x110C2), (0x110CD, 0x110CD), (0x11100, 0x11102),
      (0x11127, 0x1112B), (0x1112D, 0x11134), (0x11173, 0x11173), (0x11180, 0x11181), (0x111B6, 0x111BE),
      (0x111C9, 0x111CC), (0x111CF, 0x111CF), (0x1122F, 0x11231), (0x11234, 0x11234), (0x11236, 0x11237),
      (0x1123E, 0x1123E), (0x112DF, 0x112DF), (0x112E3, 0x112EA), (0x11300, 0x11301), (0x1133B, 0x1133C),
      (0x11340, 0x11340), (0x11366, 0x1136C), (0x11370, 0x11374), (0x11438, 0x1143F), (0x11442, 0x11444),
      (0x11446, 0x11446), (0x1145E, 0x1145E), (0x114B3, 0x114B8), (0x114BA, 0x114BA), (0x114BF, 0x114C0),
      (0x114C2, 0x114C3), (0x115B2, 0x115B5), (0x115BC, 0x115BD), (0x115BF, 0x115C0), (0x115DC, 0x115DD),
      (0x11633, 0x1163A), (0x1163D, 0x1163D), (0x1163F, 0x11640), (0x116AB, 0x116AB), (0x116AD, 0x116AD),
      (0x116B0, 0x116B5), (0x116B7, 0x116B7), (0x1171D, 0x1171F), (0x11722, 0x11725), (0x11727, 0x1172B),
      (0x1182F, 0x11837), (0x11839, 0x1183A), (0x1193B, 0x1193C), (0x1193E, 0x1193E), (0x11943, 0x11943),
      (0x119D4, 0x119D7), (0x119DA, 0x119DB), (0x119E0, 0x119E0), (0x11A01, 0x11A0A), (0x11A33, 0x11A38),
      (0x11A3B, 0x11A3E), (0x11A47, 0x11A47), (0x11A51, 0x11A56), (0x11A59, 0x11A5B), (0x11A8A, 0x11A96),
      (0x11A98, 0x11A99), (0x11C30, 0x11C36), (0x11C38, 0x11C3D), (0x11C3F, 0x11C3F), (0x11C92, 0x11CA7),
      (0x11CAA, 0x11CB0), (0x11CB2, 0x11CB3), (0x11CB5, 0x11CB6), (0x11D31, 0x11D36), (0x11D3A, 0x11D3A),
      (0x11D3C, 0x11D3D), (0x11D3F, 0x11D45), (0x11D47, 0x11D47), (0x11D90, 0x11D91), (0x11D95, 0x11D95),
      (0x11D97, 0x11D97), (0x11EF3, 0x11EF4), (0x13430, 0x13438), (0x16AF0, 0x16AF4), (0x16B30, 0x16B36),
      (0x16B40, 0x16B43), (0x16F4F, 0x16F4F), (0x16F8F, 0x16F9F), (0x16FE0, 0x16FE1), (0x16FE3, 0x16FE4),
      (0x1AFF0, 0x1AFF3), (0x1AFF5, 0x1AFFB), (0x1AFFD, 0x1AFFE), (0x1BC9D, 0x1BC9E), (0x1BCA0, 0x1BCA3),
      (0x1CF00, 0x1CF2D), (0x1CF30, 0x1CF46), (0x1D167, 0x1D169), (0x1D173, 0x1D182), (0x1D185, 0x1D18B),
      (0x1D1AA, 0x1D1AD), (0x1D242, 0x1D244), (0x1DA00, 0x1DA36), (0x1DA3B, 0x1DA6C), (0x1DA75, 0x1DA75),
      (0x1DA84, 0x1DA84), (0x1DA9B, 0x1DA9F), (0x1DAA1, 0x1DAAF), (0x1E000, 0x1E006), (0x1E008, 0x1E018),
      (0x1E01B, 0x1E021), (0x1E023, 0x1E024), (0x1E026, 0x1E02A), (0x1E130, 0x1E13D), (0x1E2AE, 0x1E2AE),
      (0x1E2EC, 0x1E2EF), (0x1E8D0, 0x1E8D6), (0x1E944, 0x1E94B), (0x1F3FB, 0x1F3FF), (0xE0001, 0xE0001),
      (0xE0020, 0xE007F), (0xE0100, 0xE01EF)]"

fun lookupLower :: "(nat \<times> nat \<times> nat \<times> nat) list \<Rightarrow> nat \<Rightarrow> nat" where
  "lookupLower [] cp = cp"
| "lookupLower ((lo, hi, step, tlo) # rest) cp =
     (if lo \<le> cp \<and> cp \<le> hi \<and> (cp - lo) mod step = 0 then tlo + (cp - lo)
      else lookupLower rest cp)"

fun inRanges :: "(nat \<times> nat) list \<Rightarrow> nat \<Rightarrow> bool" where
  "inRanges [] cp = False"
| "inRanges ((lo, hi) # rest) cp = ((lo \<le> cp \<and> cp \<le> hi) \<or> inRanges rest cp)"

definition simpleLower :: "nat \<Rightarrow> nat" where
  "simpleLower cp = lookupLower ((0x41, 0x5A, 1, 0x61) # lowerTable) cp"

definition cased :: "nat \<Rightarrow> bool" where
  "cased cp = inRanges casedTable cp"

definition caseIgnorable :: "nat \<Rightarrow> bool" where
  "caseIgnorable cp = inRanges caseIgnorableTable cp"

text \<open>
  The two exceptions of \<^verbatim>\<open>SpecialCasing.txt\<close> that do not depend on a locale: the capital I
  with dot above (U+0130) becomes two code points, and a capital sigma (U+03A3) becomes
  the final sigma (U+03C2) when a cased letter comes before it and none after it,
  case-ignorable code points being skipped on both sides. \<open>pre\<close> is the part of the string
  before the code point, nearest first.
\<close>

definition casedNext :: "nat list \<Rightarrow> bool" where
  "casedNext cps = (case dropWhile caseIgnorable cps of [] \<Rightarrow> False | c # _ \<Rightarrow> cased c)"

definition finalSigma :: "nat list \<Rightarrow> nat list \<Rightarrow> bool" where
  "finalSigma pre post = (casedNext pre \<and> \<not> casedNext post)"

fun lowerPoints :: "nat list \<Rightarrow> nat list \<Rightarrow> nat list" where
  "lowerPoints pre [] = []"
| "lowerPoints pre (c # cs) =
     (if c = 0x3A3 then [if finalSigma pre cs then 0x3C2 else 0x3C3]
      else if c = 0x130 then [0x69, 0x307]
      else [simpleLower c])
     @ lowerPoints (c # pre) cs"

definition toLowerCase :: "jsString \<Rightarrow> jsString" where
  "toLowerCase s = concat (map codeUnits (lowerPoints [] (codePoints s)))"

subsection \<open>The result handler\<close>

text \<open>\<^verbatim>\<open>s.includes(k)\<close>: the code units of \<open>k\<close> start at some position of \<open>s\<close>.\<close>

fun includes_str :: "jsString \<Rightarrow> jsString \<Rightarrow> bool" where
  "includes_str [] k = (k = [])"
| "includes_str (c # cs) k = (prefix k (c # cs) \<or> includes_str cs k)"

text \<open>
  \<^verbatim>\<open>Array.from(event.results).map(result => result[0].transcript)\<close>: a result without any
  alternative makes \<^verbatim>\<open>result[0]\<close> undefined, and reading its transcript throws.
\<close>

fun bestTranscripts :: "speechRecognitionResult list \<Rightarrow> jsError + jsString list" where
  "bestTranscripts [] = Inr []"
| "bestTranscripts ([] # rs) = Inl TypeError"
| "bestTranscripts ((a # alts) # rs) =
     (case bestTranscripts rs of Inl e \<Rightarrow> Inl e | Inr ts \<Rightarrow> Inr (transcript a # ts))"

definition hasEmergencyKeyword :: "detectionSettings \<Rightarrow> jsString \<Rightarrow> bool" where
  "hasEmergencyKeyword s t =
     list_ex (\<lambda>keyword. includes_str t (toLowerCase keyword))
       (emergencyKeywords s)"

definition onresult :: "detectionSettings \<Rightarrow> speechRecognitionResult list \<Rightarrow> world \<Rightarrow> jsError + world" where
  "onresult s results w =
     (case bestTranscripts results of
        Inl e \<Rightarrow> Inl e
      | Inr ts \<Rightarrow>
          (let t = toLowerCase (concat ts)
           in if hasEmergencyKeyword s t then Inr (onEmergencyDetected w) else Inr w))"

text \<open>
  \<^verbatim>\<open>recognition.onerror\<close> only reports: a toast for \<^verbatim>\<open>not-allowed\<close>, nothing else.
\<close>

definition microphoneDeniedToast :: toast where
  "microphoneDeniedToast =
     \<lparr>title = ''Microphone Access Denied'',
      description = ''Please enable microphone access for voice detection'',
      variant = Some ''destructive''\<rparr>"

definition onerror :: "string \<Rightarrow> world \<Rightarrow> world" where
  "onerror err w = (if err = ''not-allowed'' then addToast microphoneDeniedToast w else w)"

definition settingsVoiceEnabled :: "render \<Rightarrow> bool" where
  "settingsVoiceEnabled rnd =
     (case capturedSettings rnd of None \<Rightarrow> False | Some s \<Rightarrow> voiceEnabled s)"

text \<open>
  \<^verbatim>\<open>recognition.onend\<close>: the test reads the \<^verbatim>\<open>isBackgroundActive\<close> and the \<^verbatim>\<open>settings\<close> of the
  render that created the handler; when it passes, a restart is scheduled 1000 ms later.
\<close>

definition onend :: "recognition \<Rightarrow> world \<Rightarrow> world" where
  "onend r w =
     (if capturedActive (recRender r) \<and> settingsVoiceEnabled (recRender r)
      then w\<lparr>timers := timers w @ [(1000, r)]\<rparr>
      else w)"

text \<open>
  The engine of \<open>r\<close> terminates (by itself, or after \<^verbatim>\<open>stop()\<close>): it is no longer listening,
  and the browser calls \<^verbatim>\<open>onend\<close>.
\<close>

definition engineEnded :: "recognition \<Rightarrow> world \<Rightarrow> world" where
  "engineEnded r w = onend r (w\<lparr>startedEngines := removeAll (recId r) (startedEngines w)\<rparr>)"

text \<open>
  The timer callback: \<^verbatim>\<open>recognition.start()\<close> inside try/catch. \<open>throws\<close> says whether the
  browser refuses the start; the error is only logged.
\<close>

definition restartTimer :: "bool \<Rightarrow> recognition \<Rightarrow> world \<Rightarrow> world" where
  "restartTimer throws r w =
     (let w1 = w\<lparr>timers := remove1 (1000, r) (timers w)\<rparr>
      in if throws then w1 else w1\<lparr>startedEngines := startedEngines w1 @ [recId r]\<rparr>)"

definition startVoiceDetection :: "render \<Rightarrow> host \<Rightarrow> world \<Rightarrow> bool \<times> world" where
  "startVoiceDetection rnd h w =
     (if \<not> settingsVoiceEnabled rnd \<or> \<not> speechAvailable h then (False, w)
      else if speechThrows h then (False, w)
      else
        (let r = \<lparr>recId = nextId w, recRender = rnd\<rparr>
         in (True, w\<lparr>startedEngines := startedEngines w @ [recId r],
                     speechRecognitionRef := Some r,
                     nextId := nextId w + 1\<rparr>)))"

section \<open>Motion channel\<close>

text \<open>
  JavaScript numbers are read as real numbers (rounding is not modelled), and the clock
  \<^verbatim>\<open>Date.now()\<close> as an integer number of milliseconds.
\<close>

text \<open>The fields \<^verbatim>\<open>x\<close>, \<^verbatim>\<open>y\<close>, \<^verbatim>\<open>z\<close> of \<^verbatim>\<open>event.acceleration\<close>; each may be absent.\<close>

record deviceAcceleration =
  accX :: "real option"
  accY :: "real option"
  accZ :: "real option"

record deviceMotionEvent =
  acceleration :: "deviceAcceleration option"

text \<open>An axis that is absent counts as 0.\<close>

definition axis :: "real option \<Rightarrow> real" where
  "axis v = (case v of None \<Rightarrow> 0 | Some r \<Rightarrow> r)"

definition totalAcceleration :: "deviceAcceleration \<Rightarrow> real" where
  "totalAcceleration a =
     sqrt (axis (accX a) * axis (accX a) + axis (accY a) * axis (accY a)
           + axis (accZ a) * axis (accZ a))"

definition thresholdOf :: "detectionSettings \<Rightarrow> real" where
  "thresholdOf s = (100 - motionSensitivity s) / 10"

text \<open>
  \<^verbatim>\<open>handleMotion\<close> at the time \<open>now\<close> (the value of \<^verbatim>\<open>Date.now()\<close>): the closure after the call,
  and whether \<^verbatim>\<open>onEmergencyDetected\<close> was invoked.
\<close>

definition handleMotion :: "deviceMotionEvent \<Rightarrow> int \<Rightarrow> motionListener \<Rightarrow> motionListener \<times> bool" where
  "handleMotion ev now l =
     (case acceleration ev of
        None \<Rightarrow> (l, False)
      | Some a \<Rightarrow>
          if totalAcceleration a > shakeThreshold l
          then (if now - lastShakeTime l > 2000
                then (l\<lparr>lastShakeTime := now\<rparr>, True)
                else (l, False))
          else (l, False))"

text \<open>A \<^verbatim>\<open>devicemotion\<close> event reaches every listener attached to \<^verbatim>\<open>window\<close>, in order.\<close>

fun dispatchMotion :: "deviceMotionEvent \<Rightarrow> int \<Rightarrow> motionListener list \<Rightarrow> motionListener list \<times> nat" where
  "dispatchMotion ev now [] = ([], 0)"
| "dispatchMotion ev now (l # ls) =
     (let (l', fired) = handleMotion ev now l;
          (ls', n) = dispatchMotion ev now ls
      in (l' # ls', (if fired then 1 else 0) + n))"

definition devicemotion :: "deviceMotionEvent \<Rightarrow> int \<Rightarrow> world \<Rightarrow> world" where
  "devicemotion ev now w =
     (let (ls, n) = dispatchMotion ev now (motionListeners w)
      in w\<lparr>motionListeners := ls, emergencyCalls := emergencyCalls w + n\<rparr>)"

definition motionDeniedToast :: toast where
  "motionDeniedToast =
     \<lparr>title = ''Motion Access Denied'',
      description = ''Please enable device motion access for shake detection'',
      variant = Some ''destructive''\<rparr>"

text \<open>
  The part of \<^verbatim>\<open>startMotionDetection\<close> after the permission request: a new closure with
  \<^verbatim>\<open>lastShakeTime = 0\<close> is attached to \<^verbatim>\<open>window\<close> and stored in the ref.
  \<open>startMotionDetection\<close> is the function up to its await: \<open>None\<close> says that it waits for
  the answer to \<^verbatim>\<open>requestPermission()\<close>, and \<open>resumeMotionDetection\<close> goes on from the answer
  (a rejected promise is caught and gives \<open>False\<close>).
\<close>

definition attachMotion :: "detectionSettings \<Rightarrow> world \<Rightarrow> bool \<times> world" where
  "attachMotion s w =
     (let l = \<lparr>listenerId = nextId w, shakeThreshold = thresholdOf s, lastShakeTime = 0\<rparr>
      in (True, w\<lparr>motionListeners := motionListeners w @ [l],
                  motionListenerRef := Some (listenerId l),
                  nextId := nextId w + 1\<rparr>))"

definition startMotionDetection :: "detectionSettings \<Rightarrow> host \<Rightarrow> world \<Rightarrow> (bool \<times> world) option" where
  "startMotionDetection s h w =
     (if \<not> motionEnabled s then Some (False, w)
      else if motionPermissionGated h then None
      else Some (attachMotion s w))"

definition resumeMotionDetection :: "detectionSettings \<Rightarrow> permissionResult \<Rightarrow> world \<Rightarrow> bool \<times> world" where
  "resumeMotionDetection s p w =
     (case p of
        Granted \<Rightarrow> attachMotion s w
      | Denied \<Rightarrow> (False, addToast motionDeniedToast w)
      | PermissionRejected \<Rightarrow> (False, w))"

text \<open>The whole of \<^verbatim>\<open>startMotionDetection\<close>, when the permission request is answered by \<open>p\<close>.\<close>

definition motionDetection :: "detectionSettings \<Rightarrow> host \<Rightarrow> permissionResult \<Rightarrow> world \<Rightarrow> bool \<times> world" where
  "motionDetection s h p w =
     (case startMotionDetection s h w of
        Some r \<Rightarrow> r
      | None \<Rightarrow> resumeMotionDetection s p w)"

section \<open>Camera channel\<close>

definition cameraDeniedToast :: toast where
  "cameraDeniedToast =
     \<lparr>title = ''Camera Access Denied'',
      description = ''Please enable camera access for gesture and blink detection'',
      variant = Some ''destructive''\<rparr>"

text \<open>
  \<open>startCameraDetection\<close> is the function up to its await: it returns \<open>False\<close> at once when
  neither blink nor gesture detection is enabled (\<open>Some False\<close>), and waits for
  \<^verbatim>\<open>getUserMedia\<close> otherwise (\<open>None\<close>). \<open>resumeCameraDetection\<close> goes on from the answer: a
  stream of \<open>n\<close> new live tracks is stored in the ref; a refusal gives \<open>False\<close>, with a toast
  when it is a \<^verbatim>\<open>NotAllowedError\<close>.
\<close>

definition startCameraDetection :: "detectionSettings \<Rightarrow> bool option" where
  "startCameraDetection s =
     (if \<not> blinkEnabled s \<and> \<not> gestureEnabled s then Some False else None)"

definition resumeCameraDetection :: "mediaResult \<Rightarrow> world \<Rightarrow> bool \<times> world" where
  "resumeCameraDetection m w =
     (case m of
        MediaStream n \<Rightarrow>
          (let tracks = [nextId w ..< nextId w + n]
           in (True, w\<lparr>liveTracks := liveTracks w @ tracks,
                       videoStreamRef := Some tracks,
                       nextId := nextId w + n\<rparr>))
      | NotAllowedError \<Rightarrow> (False, addToast cameraDeniedToast w)
      | OtherMediaError \<Rightarrow> (False, w))"

text \<open>The whole of \<^verbatim>\<open>startCameraDetection\<close>, when \<^verbatim>\<open>getUserMedia\<close> answers \<open>m\<close>.\<close>

definition cameraDetection :: "detectionSettings \<Rightarrow> mediaResult \<Rightarrow> world \<Rightarrow> bool \<times> world" where
  "cameraDetection s m w =
     (case startCameraDetection s of
        Some b \<Rightarrow> (b, w)
      | None \<Rightarrow> resumeCameraDetection m w)"

section \<open>Starting and stopping\<close>

text \<open>
  \<^verbatim>\<open>startBackgroundDetection\<close> is an async function. Between two of its awaited requests
  (the motion permission, \<^verbatim>\<open>getUserMedia\<close>, the notification permission) the event loop can
  run anything else, a call of \<^verbatim>\<open>stopBackgroundDetection\<close> included. \<open>suspended\<close> says where
  the function waits, with its local variable \<^verbatim>\<open>status\<close>; each function below runs from one
  await to the next.
\<close>

datatype suspended =
    Finished
  | MotionPermissionPending detectionStatus
  | CameraPending detectionStatus
  | NotificationPending

definition configurationRequiredToast :: toast where
  "configurationRequiredToast =
     \<lparr>title = ''Configuration Required'',
      description = ''Please configure detection settings first'',
      variant = Some ''destructive''\<rparr>"

definition detectionActiveToast :: toast where
  "detectionActiveToast =
     \<lparr>title = ''Background Detection Active'',
      description = ''Zero Touch SOS is now monitoring for emergencies in the background'',
      variant = None\<rparr>"

definition detectionStoppedToast :: toast where
  "detectionStoppedToast =
     \<lparr>title = ''Background Detection Stopped'',
      description = ''Emergency monitoring has been deactivated'',
      variant = None\<rparr>"

text \<open>From \<^verbatim>\<open>setDetectionStatus(status)\<close> to the end.\<close>

definition finishStart :: "host \<Rightarrow> detectionStatus \<Rightarrow> world \<Rightarrow> world \<times> suspended" where
  "finishStart h st w =
     (let w1 = w\<lparr>currentStatus := st\<rparr>
      in if notificationDefault h then (w1, NotificationPending)
         else (addToast detectionActiveToast w1, Finished))"

definition resumeNotification :: "world \<Rightarrow> world \<times> suspended" where
  "resumeNotification w = (addToast detectionActiveToast w, Finished)"

text \<open>From the test of \<^verbatim>\<open>blinkEnabled || gestureEnabled\<close> on.\<close>

definition continueWithCamera :: "detectionSettings \<Rightarrow> host \<Rightarrow> detectionStatus \<Rightarrow> world \<Rightarrow> world \<times> suspended" where
  "continueWithCamera s h st w =
     (if blinkEnabled s \<or> gestureEnabled s
      then (case startCameraDetection s of
              None \<Rightarrow> (w, CameraPending st)
            | Some b \<Rightarrow> finishStart h (st\<lparr>camera := b\<rparr>) w)
      else finishStart h st w)"

definition resumeCamera :: "host \<Rightarrow> detectionStatus \<Rightarrow> mediaResult \<Rightarrow> world \<Rightarrow> world \<times> suspended" where
  "resumeCamera h st m w =
     (let (b, w1) = resumeCameraDetection m w
      in finishStart h (st\<lparr>camera := b\<rparr>) w1)"

text \<open>From the test of \<^verbatim>\<open>motionEnabled\<close> on.\<close>

definition continueWithMotion :: "detectionSettings \<Rightarrow> host \<Rightarrow> detectionStatus \<Rightarrow> world \<Rightarrow> world \<times> suspended" where
  "continueWithMotion s h st w =
     (if motionEnabled s
      then (case startMotionDetection s h w of
              None \<Rightarrow> (w, MotionPermissionPending st)
            | Some (b, w1) \<Rightarrow> continueWithCamera s h (st\<lparr>motion := b\<rparr>) w1)
      else continueWithCamera s h st w)"

definition resumeMotionPermission :: "detectionSettings \<Rightarrow> host \<Rightarrow> detectionStatus \<Rightarrow> permissionResult \<Rightarrow> world \<Rightarrow> world \<times> suspended" where
  "resumeMotionPermission s h st p w =
     (let (b, w1) = resumeMotionDetection s p w
      in continueWithCamera s h (st\<lparr>motion := b\<rparr>) w1)"

definition startBackgroundDetection :: "render \<Rightarrow> host \<Rightarrow> world \<Rightarrow> world \<times> suspended" where
  "startBackgroundDetection rnd h w =
     (case capturedSettings rnd of
        None \<Rightarrow> (addToast configurationRequiredToast w, Finished)
      | Some s \<Rightarrow>
          (let w0 = w\<lparr>isBackgroundActive := True\<rparr>;
               (v, w1) = (if voiceEnabled s then startVoiceDetection rnd h w0 else (False, w0))
           in continueWithMotion s h (noStatus\<lparr>voice := v\<rparr>) w1))"

text \<open>
  The answers of the browser to one call of \<^verbatim>\<open>startBackgroundDetection\<close>, and the call run
  to its end with nothing else in between: at most three awaits are resumed.
\<close>

record answers =
  motionPermission :: permissionResult
  cameraResult :: mediaResult

definition resume :: "detectionSettings \<Rightarrow> host \<Rightarrow> answers \<Rightarrow> world \<times> suspended \<Rightarrow> world \<times> suspended" where
  "resume s h a ws =
     (case ws of
        (w, Finished) \<Rightarrow> (w, Finished)
      | (w, MotionPermissionPending st) \<Rightarrow> resumeMotionPermission s h st (motionPermission a) w
      | (w, CameraPending st) \<Rightarrow> resumeCamera h st (cameraResult a) w
      | (w, NotificationPending) \<Rightarrow> resumeNotification w)"

definition runStart :: "render \<Rightarrow> host \<Rightarrow> answers \<Rightarrow> world \<Rightarrow> world \<times> suspended" where
  "runStart rnd h a w =
     (case capturedSettings rnd of
        None \<Rightarrow> startBackgroundDetection rnd h w
      | Some s \<Rightarrow> resume s h a (resume s h a (resume s h a (startBackgroundDetection rnd h w))))"

text \<open>
  The body of \<^verbatim>\<open>startBackgroundDetection\<close> for settings \<open>s\<close> read in one piece, line by line;
  \<open>runStart\<close> is shown below to compute exactly this.
\<close>

definition startSequence :: "render \<Rightarrow> detectionSettings \<Rightarrow> host \<Rightarrow> answers \<Rightarrow> world \<Rightarrow> world" where
  "startSequence rnd s h a w =
     (let w0 = w\<lparr>isBackgroundActive := True\<rparr>;
          (v, w1) = (if voiceEnabled s then startVoiceDetection rnd h w0 else (False, w0));
          (m, w2) = (if motionEnabled s then motionDetection s h (motionPermission a) w1
                     else (False, w1));
          (c, w3) = (if blinkEnabled s \<or> gestureEnabled s
                     then cameraDetection s (cameraResult a) w2
                     else (False, w2))
      in addToast detectionActiveToast
           (w3\<lparr>currentStatus := \<lparr>voice = v, motion = m, camera = c\<rparr>\<rparr>))"

definition stopBackgroundDetection :: "world \<Rightarrow> world" where
  "stopBackgroundDetection w =
     (let w1 = w\<lparr>isBackgroundActive := False\<rparr>;
          w2 = (case speechRecognitionRef w1 of
                  None \<Rightarrow> w1
                | Some r \<Rightarrow> w1\<lparr>startedEngines := removeAll (recId r) (startedEngines w1),
                               speechRecognitionRef := None\<rparr>);
          w3 = (case motionListenerRef w2 of
                  None \<Rightarrow> w2
                | Some i \<Rightarrow> w2\<lparr>motionListeners := filter (\<lambda>l. listenerId l \<noteq> i) (motionListeners w2),
                               motionListenerRef := None\<rparr>);
          w4 = (case videoStreamRef w3 of
                  None \<Rightarrow> w3
                | Some tracks \<Rightarrow> w3\<lparr>liveTracks := filter (\<lambda>t. t \<notin> set tracks) (liveTracks w3),
                                    videoStreamRef := None\<rparr>);
          w5 = w4\<lparr>currentStatus := noStatus\<rparr>
      in addToast detectionStoppedToast w5)"

section \<open>The service worker\<close>

record notificationAction =
  action :: string
  actionTitle :: string

record notification =
  notificationTitle :: string
  body :: string
  icon :: string
  badge :: string
  vibrate :: "nat list"
  requireInteraction :: bool
  actions :: "notificationAction list"

record alertPayload =
  contactCount :: nat

record workerMessage =
  messageType :: string
  payload :: "alertPayload option"

text \<open>
  \<^verbatim>\<open>contactCount\<close> is a count of contacts, a natural number; a template literal prints its
  decimal digits.
\<close>

fun showNat :: "nat \<Rightarrow> string" where
  "showNat n =
     (if n < 10 then [char_of (48 + n)]
      else showNat (n div 10) @ [char_of (48 + n mod 10)])"

declare showNat.simps [simp del]

text \<open>The title starts with the four bytes of the UTF-8 encoding of the siren sign.\<close>

definition alertTitle :: string where
  "alertTitle = [CHR 0xF0, CHR 0x9F, CHR 0x9A, CHR 0xA8] @ '' Emergency Alert Sent''"

text \<open>
  \<^verbatim>\<open>handleEmergencyAlert\<close>: with no payload, reading \<^verbatim>\<open>payload.contactCount\<close> throws and nothing
  is shown.
\<close>

definition handleEmergencyAlert :: "alertPayload option \<Rightarrow> notification list \<Rightarrow> jsError + notification list" where
  "handleEmergencyAlert p shown =
     (case p of
        None \<Rightarrow> Inl TypeError
      | Some pl \<Rightarrow>
          Inr (shown @
            [\<lparr>notificationTitle = alertTitle,
              body = ''Alert sent to '' @ showNat (contactCount pl) @ '' emergency contacts'',
              icon = ''/favicon.ico'',
              badge = ''/favicon.ico'',
              vibrate = [200, 100, 200],
              requireInteraction = True,
              actions = [\<lparr>action = ''view'', actionTitle = ''View Details''\<rparr>]\<rparr>]))"

text \<open>
  The \<^verbatim>\<open>message\<close> listener, on the list of the calls of \<^verbatim>\<open>showNotification\<close> made so far:
  \<^verbatim>\<open>event.data\<close> may be absent; the alert handler is async, so an error inside it does not
  reach the listener and the list stays as it was.
\<close>

definition onmessage :: "workerMessage option \<Rightarrow> notification list \<Rightarrow> notification list" where
  "onmessage d shown =
     (case d of
        None \<Rightarrow> shown
      | Some m \<Rightarrow>
          if messageType m = ''EMERGENCY_TRIGGERED''
          then (case handleEmergencyAlert (payload m) shown of Inl e \<Rightarrow> shown | Inr shown' \<Rightarrow> shown')
          else shown)"

section \<open>Example inputs\<close>

text \<open>The code units of a literal of ASCII characters.\<close>

definition asciiString :: "string \<Rightarrow> jsString" where
  "asciiString cs = map (\<lambda>c. of_nat (of_char c)) cs"

text \<open>
  The settings of the end-to-end scenario, the same with blink detection enabled too, a
  browser that has every capability and asks for the motion permission, and the render of
  a hook whose state is still the initial one.
\<close>

definition exSettings :: detectionSettings where
  "exSettings =
     \<lparr>voiceEnabled = True, blinkEnabled = False, gestureEnabled = False, motionEnabled = True,
      voiceSensitivity = 70, motionSensitivity = 60,
      emergencyKeywords = [asciiString ''help'', asciiString ''emergency'']\<rparr>"

definition fullSettings :: detectionSettings where
  "fullSettings = exSettings\<lparr>blinkEnabled := True\<rparr>"

definition exHost :: host where
  "exHost =
     \<lparr>speechAvailable = True, speechThrows = False, motionPermissionGated = True,
      notificationDefault = False\<rparr>"

definition grantAll :: answers where
  "grantAll = \<lparr>motionPermission = Granted, cameraResult = MediaStream 1\<rparr>"

definition denyCamera :: answers where
  "denyCamera = \<lparr>motionPermission = Granted, cameraResult = NotAllowedError\<rparr>"

definition firstRender :: "detectionSettings \<Rightarrow> render" where
  "firstRender s = \<lparr>capturedActive = False, capturedSettings = Some s\<rparr>"

definition activeRender :: "detectionSettings \<Rightarrow> render" where
  "activeRender s = \<lparr>capturedActive = True, capturedSettings = Some s\<rparr>"

definition exResults :: "speechRecognitionResult list" where
  "exResults =
     [[\<lparr>transcript = asciiString ''Please HE'', confidence = 1\<rparr>],
      [\<lparr>transcript = asciiString ''LP, this is an Emergency'', confidence = 1\<rparr>,
       \<lparr>transcript = asciiString ''nothing'', confidence = 0\<rparr>]]"

text \<open>
  A keyword in capitals with a letter outside ASCII, the Swedish word for help with
  U+00C4, and a result that carries the same word in small letters, with U+00E4, followed
  by an exclamation mark.
\<close>

definition swedishSettings :: detectionSettings where
  "swedishSettings = exSettings\<lparr>emergencyKeywords := [[0x48, 0x4A, 0xC4, 0x4C, 0x50]]\<rparr>"

definition swedishResults :: "speechRecognitionResult list" where
  "swedishResults = [[\<lparr>transcript = [0x68, 0x6A, 0xE4, 0x6C, 0x70, 0x21], confidence = 1\<rparr>]]"

text \<open>
  A sample of magnitude 5 whose third axis is absent, and the closure that
  \<open>attachMotion\<close> creates for settings \<open>s\<close>.
\<close>

definition shakeAcceleration :: deviceAcceleration where
  "shakeAcceleration = \<lparr>accX = Some 3, accY = Some 4, accZ = None\<rparr>"

definition shake :: deviceMotionEvent where
  "shake = \<lparr>acceleration = Some shakeAcceleration\<rparr>"

definition freshListener :: "detectionSettings \<Rightarrow> motionListener" where
  "freshListener s = \<lparr>listenerId = 0, shakeThreshold = thresholdOf s, lastShakeTime = 0\<rparr>"

text \<open>
  A render without settings, a browser without speech recognition, and answers that
  refuse everything.
\<close>

definition noSettingsRender :: render where
  "noSettingsRender = \<lparr>capturedActive = False, capturedSettings = None\<rparr>"

definition barrenHost :: host where
  "barrenHost =
     \<lparr>speechAvailable = False, speechThrows = False, motionPermissionGated = True,
      notificationDefault = True\<rparr>"

definition denyAll :: answers where
  "denyAll = \<lparr>motionPermission = Denied, cameraResult = NotAllowedError\<rparr>"

text \<open>
  A first start with everything granted, and a second start from the render that
  followed it, without a stop in between.
\<close>

definition exStarted :: world where
  "exStarted = fst (runStart (firstRender fullSettings) exHost grantAll initialWorld)"

definition exRestarted :: world where
  "exRestarted = fst (runStart (activeRender fullSettings) exHost grantAll exStarted)"

text \<open>
  A start that waits for the motion permission, and the state after a stop followed by
  the late answers; a first start of the voice channel and its engine.
\<close>

definition exPending :: "world \<times> suspended" where
  "exPending = startBackgroundDetection (firstRender fullSettings) exHost initialWorld"

definition exStale :: world where
  "exStale =
     fst (resume fullSettings exHost grantAll
            (resume fullSettings exHost grantAll
               (stopBackgroundDetection (fst exPending), snd exPending)))"

definition exVoiceStarted :: world where
  "exVoiceStarted = fst (runStart (firstRender exSettings) exHost grantAll initialWorld)"

definition exEngine :: recognition where
  "exEngine = \<lparr>recId = 0, recRender = firstRender exSettings\<rparr>"

text \<open>
  The alert message for \<open>n\<close> contacts, and the number that a string of decimal digits
  denotes.
\<close>

definition readNat :: "string \<Rightarrow> nat" where
  "readNat cs = foldl (\<lambda>acc c. 10 * acc + (of_char c - 48)) 0 cs"

definition alertMessage :: "nat \<Rightarrow> workerMessage" where
  "alertMessage n = \<lparr>messageType = ''EMERGENCY_TRIGGERED'', payload = Some \<lparr>contactCount = n\<rparr>\<rparr>"

section \<open>Voice channel: keyword matching\<close>

text \<open>\<open>includes_str\<close> is containment as a substring.\<close>

lemma includes_str_substring:
  "includes_str t k \<longleftrightarrow> (\<exists>pre post. t = pre @ k @ post)"
proof (induction t)
  case Nil
  then show ?case by auto
next
  case (Cons c cs)
  show ?case
  proof
    assume "includes_str (c # cs) k"
    then consider "prefix k (c # cs)" | "includes_str cs k" by auto
    then show "\<exists>pre post. c # cs = pre @ k @ post"
    proof cases
      case 1
      then obtain post where "c # cs = k @ post" by (auto simp: prefix_def)
      then have "c # cs = [] @ k @ post" by simp
      then show ?thesis by blast
    next
      case 2
      with Cons.IH obtain pre post where "cs = pre @ k @ post" by blast
      then have "c # cs = (c # pre) @ k @ post" by simp
      then show ?thesis by blast
    qed
  next
    assume "\<exists>pre post. c # cs = pre @ k @ post"
    then obtain pre post where eq: "c # cs = pre @ k @ post" by blast
    show "includes_str (c # cs) k"
    proof (cases pre)
      case Nil
      with eq have "prefix k (c # cs)" by (simp add: prefix_def)
      then show ?thesis by simp
    next
      case (Cons p ps)
      with eq have "cs = ps @ k @ post" by simp
      with Cons.IH have "includes_str cs k" by blast
      then show ?thesis by simp
    qed
  qed
qed

lemma bestTranscripts_nonempty:
  "\<forall>r \<in> set results. r \<noteq> [] \<Longrightarrow>
   bestTranscripts results = Inr (map (\<lambda>r. transcript (hd r)) results)"
  by (induction results rule: bestTranscripts.induct) auto

lemma bestTranscripts_empty_result:
  "[] \<in> set results \<Longrightarrow> bestTranscripts results = Inl TypeError"
  by (induction results rule: bestTranscripts.induct) (auto split: sum.splits)

lemma hasEmergencyKeyword_iff:
  "hasEmergencyKeyword s t \<longleftrightarrow>
   (\<exists>k \<in> set (emergencyKeywords s). \<exists>pre post. t = pre @ toLowerCase k @ post)"
  by (simp add: hasEmergencyKeyword_def list_ex_iff includes_str_substring)

section \<open>Voice channel: lower case\<close>

lemmas lower_eval =
  toLowerCase_def isHighSurrogate_def isLowSurrogate_def codeUnits_def simpleLower_def
  lowerTable_def finalSigma_def casedNext_def cased_def caseIgnorable_def casedTable_def
  caseIgnorableTable_def

text \<open>
  On a string of ASCII code units \<open>toLowerCase\<close> adds 0x20 to the letters A to Z and keeps
  everything else: no entry of the table starts below U+00C0, and no surrogate, sigma or
  dotted I occurs.
\<close>

lemma lookupLower_below:
  "\<forall>e \<in> set tbl. cp < fst e \<Longrightarrow> lookupLower tbl cp = cp"
  by (induction tbl cp rule: lookupLower.induct) auto

lemma lowerTable_above: "\<forall>e \<in> set lowerTable. 0xC0 \<le> fst e"
  by (simp add: lowerTable_def)

lemma simpleLower_ascii:
  assumes "cp < 0x80"
  shows "simpleLower cp = (if 0x41 \<le> cp \<and> cp \<le> 0x5A then cp + 0x20 else cp)"
proof -
  have "\<forall>e \<in> set lowerTable. cp < fst e"
    using lowerTable_above assms by fastforce
  then have "lookupLower lowerTable cp = cp"
    by (rule lookupLower_below)
  then show ?thesis by (simp add: simpleLower_def)
qed

lemma ascii_not_surrogate: "u < 0x80 \<Longrightarrow> \<not> isHighSurrogate (u :: 16 word)"
  by (simp add: isHighSurrogate_def word_le_nat_alt word_less_nat_alt)

lemma codePoints_ascii:
  "\<forall>u \<in> set s. u < 0x80 \<Longrightarrow> codePoints s = map unat s"
  by (induction s rule: codePoints.induct) (simp_all add: ascii_not_surrogate)

lemma lowerPoints_ascii:
  "\<forall>c \<in> set cps. c < 0x80 \<Longrightarrow>
   lowerPoints pre cps = map (\<lambda>c. if 0x41 \<le> c \<and> c \<le> 0x5A then c + 0x20 else c) cps"
  by (induction cps arbitrary: pre) (simp_all add: simpleLower_ascii)

lemma lower_unit_ascii:
  assumes "(u :: 16 word) < 0x80"
  shows "codeUnits (if 0x41 \<le> unat u \<and> unat u \<le> 0x5A then unat u + 0x20 else unat u)
         = [if 0x41 \<le> u \<and> u \<le> 0x5A then u + 0x20 else u]"
  using assms
  by (auto simp: codeUnits_def word_le_nat_alt word_less_nat_alt)

lemma concat_codeUnits_ascii:
  "\<forall>u \<in> set s. u < 0x80 \<Longrightarrow>
   concat (map codeUnits
             (map (\<lambda>c. if 0x41 \<le> c \<and> c \<le> 0x5A then c + 0x20 else c) (map unat s)))
     = map (\<lambda>u. if 0x41 \<le> u \<and> u \<le> 0x5A then u + 0x20 else u) s"
  by (induction s) (simp_all add: lower_unit_ascii)

lemma toLowerCase_ascii:
  assumes "\<forall>u \<in> set s. u < 0x80"
  shows "toLowerCase s = map (\<lambda>u. if 0x41 \<le> u \<and> u \<le> 0x5A then u + 0x20 else u) s"
proof -
  have "\<forall>c \<in> set (map unat s). c < 0x80"
    using assms by (auto simp: word_less_nat_alt)
  then have "lowerPoints [] (codePoints s)
        = map (\<lambda>c. if 0x41 \<le> c \<and> c \<le> 0x5A then c + 0x20 else c) (map unat s)"
    by (simp only: codePoints_ascii [OF assms] lowerPoints_ascii)
  then show ?thesis
    by (simp only: toLowerCase_def concat_codeUnits_ascii [OF assms])
qed

text \<open>
  Beyond ASCII: Latin capitals with U+00C4 among them (help in Swedish), Cyrillic capitals,
  Greek capitals with a sigma inside the word and one at its end, the dotted capital I,
  and a Deseret capital written as a surrogate pair next to a lone surrogate.
\<close>

lemma toLowerCase_latin1:
  "toLowerCase [0x48, 0x4A, 0xC4, 0x4C, 0x50] = [0x68, 0x6A, 0xE4, 0x6C, 0x70]"
  by (simp add: lower_eval)

lemma toLowerCase_cyrillic:
  "toLowerCase [0x41F, 0x41E, 0x41C, 0x41E, 0x413, 0x418, 0x422, 0x415]
     = [0x43F, 0x43E, 0x43C, 0x43E, 0x433, 0x438, 0x442, 0x435]"
  by (simp add: lower_eval)

lemma toLowerCase_final_sigma:
  "toLowerCase [0x39F, 0x394, 0x3A5, 0x3A3, 0x3A3, 0x395, 0x3A5, 0x3A3]
     = [0x3BF, 0x3B4, 0x3C5, 0x3C3, 0x3C3, 0x3B5, 0x3C5, 0x3C2]"
  by (simp add: lower_eval)

lemma toLowerCase_special:
  "toLowerCase [0x130, 0xD801, 0xDC00, 0xD801] = [0x69, 0x307, 0xD801, 0xDC28, 0xD801]"
  by (simp add: lower_eval)

text \<open>
  Claim C1. For every keyword list and every incremental result event whose results each
  carry at least one alternative, \<open>onresult\<close> lower-cases the concatenation of the first
  (best) transcript of every result, and it invokes the emergency callback exactly once
  when that string contains the lower-cased form of some keyword as a substring, and not at
  all otherwise; nothing else of the state changes. Several matching keywords still give
  one invocation. Lower-casing is the builtin of the language: on ASCII it turns exactly
  the letters A to Z into a to z, and it folds the capitals of other scripts too, as the
  examples from Latin-1, Cyrillic, Greek (with the final sigma), the dotted I and a
  surrogate pair show.
\<close>

theorem voice_onresult_fires_once_iff_keyword:
  assumes "\<forall>r \<in> set results. r \<noteq> []"
  shows "onresult s results w =
     Inr (if (\<exists>k \<in> set (emergencyKeywords s). \<exists>pre post.
                toLowerCase (concat (map (\<lambda>r. transcript (hd r)) results))
                  = pre @ toLowerCase k @ post)
          then w\<lparr>emergencyCalls := emergencyCalls w + 1\<rparr>
          else w) \<and>
   (\<forall>t. (\<forall>u \<in> set t. u < 0x80) \<longrightarrow>
        toLowerCase t = map (\<lambda>u. if 0x41 \<le> u \<and> u \<le> 0x5A then u + 0x20 else u) t) \<and>
   toLowerCase [0x48, 0x4A, 0xC4, 0x4C, 0x50] = [0x68, 0x6A, 0xE4, 0x6C, 0x70] \<and>
   toLowerCase [0x41F, 0x41E, 0x41C, 0x41E, 0x413, 0x418, 0x422, 0x415]
     = [0x43F, 0x43E, 0x43C, 0x43E, 0x433, 0x438, 0x442, 0x435] \<and>
   toLowerCase [0x39F, 0x394, 0x3A5, 0x3A3, 0x3A3, 0x395, 0x3A5, 0x3A3]
     = [0x3BF, 0x3B4, 0x3C5, 0x3C3, 0x3C3, 0x3B5, 0x3C5, 0x3C2] \<and>
   toLowerCase [0x130, 0xD801, 0xDC00, 0xD801] = [0x69, 0x307, 0xD801, 0xDC28, 0xD801]"
proof -
  have fires: "onresult s results w =
     Inr (if (\<exists>k \<in> set (emergencyKeywords s). \<exists>pre post.
                toLowerCase (concat (map (\<lambda>r. transcript (hd r)) results))
                  = pre @ toLowerCase k @ post)
          then w\<lparr>emergencyCalls := emergencyCalls w + 1\<rparr>
          else w)"
    using assms
    by (simp add: onresult_def bestTranscripts_nonempty hasEmergencyKeyword_iff
        onEmergencyDetected_def)
  have ascii: "\<forall>t. (\<forall>u \<in> set t. u < 0x80) \<longrightarrow>
        toLowerCase t = map (\<lambda>u. if 0x41 \<le> u \<and> u \<le> 0x5A then u + 0x20 else u) t"
    using toLowerCase_ascii by blast
  from fires ascii toLowerCase_latin1 toLowerCase_cyrillic toLowerCase_final_sigma
    toLowerCase_special
  show ?thesis by (intro conjI)
qed

text \<open>
  In \<open>exResults\<close> both keywords occur (\<open>help\<close> across two results, \<open>emergency\<close> with a
  capital): the callback is invoked once. The keyword in Swedish capitals matches the
  transcript in small letters.
\<close>

theorem voice_onresult_fires_once_iff_keyword_witness:
  "[] \<notin> set exResults \<and>
   onresult exSettings exResults initialWorld = Inr (initialWorld\<lparr>emergencyCalls := 1\<rparr>) \<and>
   onresult swedishSettings swedishResults initialWorld
     = Inr (initialWorld\<lparr>emergencyCalls := 1\<rparr>) \<and>
   toLowerCase (asciiString ''Please HELP me'') = asciiString ''please help me''"
proof -
  have ne: "\<forall>r \<in> set exResults. r \<noteq> []"
    by (simp add: exResults_def)
  have "hasEmergencyKeyword exSettings
          (toLowerCase (concat (map (\<lambda>r. transcript (hd r)) exResults)))"
    by (simp add: hasEmergencyKeyword_def exSettings_def exResults_def asciiString_def
        toLowerCase_ascii)
  then have hit: "\<exists>k \<in> set (emergencyKeywords exSettings). \<exists>pre post.
      toLowerCase (concat (map (\<lambda>r. transcript (hd r)) exResults)) = pre @ toLowerCase k @ post"
    by (simp only: hasEmergencyKeyword_iff)
  have ne': "\<forall>r \<in> set swedishResults. r \<noteq> []"
    by (simp add: swedishResults_def)
  have "toLowerCase [0x68, 0x6A, 0xE4, 0x6C, 0x70, 0x21] = [0x68, 0x6A, 0xE4, 0x6C, 0x70, 0x21]"
    by (simp add: lower_eval)
  then have "hasEmergencyKeyword swedishSettings
          (toLowerCase (concat (map (\<lambda>r. transcript (hd r)) swedishResults)))"
    by (simp add: hasEmergencyKeyword_def swedishSettings_def swedishResults_def
        toLowerCase_latin1)
  then have hit': "\<exists>k \<in> set (emergencyKeywords swedishSettings). \<exists>pre post.
      toLowerCase (concat (map (\<lambda>r. transcript (hd r)) swedishResults))
        = pre @ toLowerCase k @ post"
    by (simp only: hasEmergencyKeyword_iff)
  have zero: "emergencyCalls initialWorld = 0"
    by (simp add: initialWorld_def)
  have "\<forall>u \<in> set (asciiString ''Please HELP me''). u < 0x80"
    by (simp add: asciiString_def)
  then have low: "toLowerCase (asciiString ''Please HELP me'') = asciiString ''please help me''"
    using voice_onresult_fires_once_iff_keyword [OF ne, of exSettings initialWorld]
    by (simp add: asciiString_def)
  have "[] \<notin> set exResults"
    by (simp add: exResults_def)
  moreover have "onresult exSettings exResults initialWorld
                   = Inr (initialWorld\<lparr>emergencyCalls := 1\<rparr>)"
    using voice_onresult_fires_once_iff_keyword [OF ne, of exSettings initialWorld] hit zero
    by simp
  moreover have "onresult swedishSettings swedishResults initialWorld
                   = Inr (initialWorld\<lparr>emergencyCalls := 1\<rparr>)"
    using voice_onresult_fires_once_iff_keyword [OF ne', of swedishSettings initialWorld] hit' zero
    by simp
  ultimately show ?thesis using low by (intro conjI)
qed

section \<open>Motion channel: threshold and debounce\<close>

lemma sqrt_25: "sqrt 25 = 5"
  by (rule real_sqrt_unique) simp_all

lemma totalAcceleration_shake: "totalAcceleration shakeAcceleration = 5"
  by (simp add: totalAcceleration_def shakeAcceleration_def axis_def sqrt_25)

lemma thresholdOf_exSettings: "thresholdOf exSettings = 4"
  by (simp add: thresholdOf_def exSettings_def)

lemma totalAcceleration_norm:
  "totalAcceleration a = sqrt ((axis (accX a))\<^sup>2 + (axis (accY a))\<^sup>2 + (axis (accZ a))\<^sup>2)"
  by (simp add: totalAcceleration_def power2_eq_square)

lemma handleMotion_fired:
  "snd (handleMotion ev now l) \<longleftrightarrow>
     (\<exists>a. acceleration ev = Some a \<and> totalAcceleration a > shakeThreshold l
          \<and> now - lastShakeTime l > 2000)"
  by (auto simp: handleMotion_def split: option.splits)

lemma handleMotion_listener:
  "fst (handleMotion ev now l) =
     (if snd (handleMotion ev now l) then l\<lparr>lastShakeTime := now\<rparr> else l)"
  by (auto simp: handleMotion_def split: option.splits)

lemma attachMotion_listener:
  "attachMotion s w =
     (True, w\<lparr>motionListeners := motionListeners w @
                  [\<lparr>listenerId = nextId w, shakeThreshold = thresholdOf s, lastShakeTime = 0\<rparr>],
               motionListenerRef := Some (nextId w),
               nextId := nextId w + 1\<rparr>)"
  by (simp add: attachMotion_def Let_def)

text \<open>
  Claim C2, amended. The threshold is \<open>(100 - motionSensitivity) / 10\<close>, the magnitude is the
  Euclidean norm of the three axes with an absent axis counted as 0, and a sample invokes
  the emergency callback iff its magnitude exceeds the threshold and MORE than 2000 ms lie
  between the clock reading of the sample and \<open>lastShakeTime\<close>, which is 0 in a new closure
  and is set to the clock reading of every sample that fires. With sensitivity 60 the
  threshold is 4; when the first sample of magnitude 5 comes at a clock reading \<open>T > 2000\<close>,
  it fires, a second one at \<open>T + 1000\<close> does not, and one at \<open>T + 2100\<close> fires again.
\<close>

theorem motion_fires_iff_above_threshold_and_over_2000ms:
  "thresholdOf s = (100 - motionSensitivity s) / 10 \<and>
   totalAcceleration a
     = sqrt ((axis (accX a))\<^sup>2 + (axis (accY a))\<^sup>2 + (axis (accZ a))\<^sup>2) \<and>
   axis None = 0 \<and>
   (snd (handleMotion ev now l) \<longleftrightarrow>
      (\<exists>b. acceleration ev = Some b \<and> totalAcceleration b > shakeThreshold l
           \<and> now - lastShakeTime l > 2000)) \<and>
   fst (handleMotion ev now l)
     = (if snd (handleMotion ev now l) then l\<lparr>lastShakeTime := now\<rparr> else l) \<and>
   motionListeners (snd (attachMotion s w))
     = motionListeners w @
         [\<lparr>listenerId = nextId w, shakeThreshold = thresholdOf s, lastShakeTime = 0\<rparr>] \<and>
   (motionSensitivity s = 60 \<and> acceleration ev = Some a \<and> totalAcceleration a = 5
      \<and> 2000 < T \<longrightarrow>
    thresholdOf s = 4 \<and>
    snd (handleMotion ev T (freshListener s)) \<and>
    \<not> snd (handleMotion ev (T + 1000) (fst (handleMotion ev T (freshListener s)))) \<and>
    snd (handleMotion ev (T + 2100) (fst (handleMotion ev T (freshListener s)))))"
proof -
  have p1: "thresholdOf s = (100 - motionSensitivity s) / 10"
    by (simp add: thresholdOf_def)
  have p2: "axis None = 0"
    by (simp add: axis_def)
  have p3: "motionListeners (snd (attachMotion s w))
     = motionListeners w @
         [\<lparr>listenerId = nextId w, shakeThreshold = thresholdOf s, lastShakeTime = 0\<rparr>]"
    by (simp add: attachMotion_listener)
  have p4: "motionSensitivity s = 60 \<and> acceleration ev = Some a \<and> totalAcceleration a = 5
      \<and> 2000 < T \<longrightarrow>
    thresholdOf s = 4 \<and>
    snd (handleMotion ev T (freshListener s)) \<and>
    \<not> snd (handleMotion ev (T + 1000) (fst (handleMotion ev T (freshListener s)))) \<and>
    snd (handleMotion ev (T + 2100) (fst (handleMotion ev T (freshListener s))))"
  proof
    assume h: "motionSensitivity s = 60 \<and> acceleration ev = Some a \<and> totalAcceleration a = 5
      \<and> 2000 < T"
    have t: "thresholdOf s = 4" using h by (simp add: thresholdOf_def)
    have f0: "snd (handleMotion ev T (freshListener s))"
      using h t by (simp add: handleMotion_fired freshListener_def)
    then have l1: "fst (handleMotion ev T (freshListener s)) = (freshListener s)\<lparr>lastShakeTime := T\<rparr>"
      by (simp add: handleMotion_listener)
    show "thresholdOf s = 4 \<and>
      snd (handleMotion ev T (freshListener s)) \<and>
      \<not> snd (handleMotion ev (T + 1000) (fst (handleMotion ev T (freshListener s)))) \<and>
      snd (handleMotion ev (T + 2100) (fst (handleMotion ev T (freshListener s))))"
      unfolding l1 using h t f0 by (simp add: handleMotion_fired freshListener_def)
  qed
  from p1 totalAcceleration_norm p2 handleMotion_fired handleMotion_listener p3 p4
  show ?thesis by (intro conjI)
qed

text \<open>
  With sensitivity 60 and the first sample at the clock reading 10000: that sample fires,
  the one 1000 ms later does not, the one 2100 ms later fires again.
\<close>

theorem motion_fires_iff_above_threshold_and_over_2000ms_witness:
  "thresholdOf exSettings = 4 \<and> totalAcceleration shakeAcceleration = 5 \<and>
   snd (handleMotion shake 10000 (freshListener exSettings)) \<and>
   \<not> snd (handleMotion shake 11000 (fst (handleMotion shake 10000 (freshListener exSettings)))) \<and>
   snd (handleMotion shake 12100 (fst (handleMotion shake 10000 (freshListener exSettings))))"
proof -
  have "motionSensitivity exSettings = 60 \<and> acceleration shake = Some shakeAcceleration
        \<and> totalAcceleration shakeAcceleration = 5 \<and> (2000::int) < 10000"
    by (simp add: exSettings_def shake_def totalAcceleration_shake)
  moreover have "(10000::int) + 1000 = 11000" "(10000::int) + 2100 = 12100"
    by simp_all
  ultimately show ?thesis
    using motion_fires_iff_above_threshold_and_over_2000ms
      [of exSettings shakeAcceleration shake 0 "freshListener exSettings" initialWorld 10000]
    by metis
qed

text \<open>
  The claim as stated fails when exactly 2000 ms have elapsed: the sample at 10000 fires,
  the sample at 12000 exceeds the threshold and comes 2 time units after the last trigger,
  and it does not fire. A sample at the clock reading 0 does not fire either, since the
  closure starts with \<open>lastShakeTime = 0\<close>.
\<close>

theorem motion_at_least_2_units_counterexample:
  "totalAcceleration shakeAcceleration > thresholdOf exSettings \<and>
   snd (handleMotion shake 10000 (freshListener exSettings)) \<and>
   (12000 :: int) - 10000 \<ge> 2000 \<and>
   \<not> snd (handleMotion shake 12000 (fst (handleMotion shake 10000 (freshListener exSettings)))) \<and>
   \<not> snd (handleMotion shake 0 (freshListener exSettings))"
proof -
  have f0: "snd (handleMotion shake 10000 (freshListener exSettings))"
    by (simp add: handleMotion_fired shake_def totalAcceleration_shake freshListener_def
        thresholdOf_exSettings)
  then have l1: "fst (handleMotion shake 10000 (freshListener exSettings))
                 = (freshListener exSettings)\<lparr>lastShakeTime := 10000\<rparr>"
    by (simp add: handleMotion_listener)
  show ?thesis
    unfolding l1 using f0
    by (simp add: handleMotion_fired shake_def totalAcceleration_shake freshListener_def
        thresholdOf_exSettings)
qed

section \<open>The start sequence\<close>

text \<open>
  Resuming each await of \<open>startBackgroundDetection\<close> with the browser's answer, and nothing
  in between, always reaches the end of the function and computes \<open>startSequence\<close>.
\<close>

lemma resume_Finished: "resume s h a (w, Finished) = (w, Finished)"
  by (simp add: resume_def)

lemma resume_finishStart:
  "resume s h a (finishStart h st w) =
     (addToast detectionActiveToast (w\<lparr>currentStatus := st\<rparr>), Finished)"
  by (simp add: resume_def finishStart_def resumeNotification_def Let_def)

lemma resume2_continueWithCamera:
  "resume s h a (resume s h a (continueWithCamera s h st w)) =
     (if blinkEnabled s \<or> gestureEnabled s
      then (addToast detectionActiveToast
              ((snd (cameraDetection s (cameraResult a) w))
                 \<lparr>currentStatus := st\<lparr>camera := fst (cameraDetection s (cameraResult a) w)\<rparr>\<rparr>),
            Finished)
      else (addToast detectionActiveToast (w\<lparr>currentStatus := st\<rparr>), Finished))"
proof (cases "blinkEnabled s \<or> gestureEnabled s")
  case True
  then have pend: "continueWithCamera s h st w = (w, CameraPending st)"
    by (auto simp: continueWithCamera_def startCameraDetection_def)
  have cam: "cameraDetection s (cameraResult a) w = resumeCameraDetection (cameraResult a) w"
    using True by (auto simp: cameraDetection_def startCameraDetection_def)
  have "resume s h a (w, CameraPending st) = resumeCamera h st (cameraResult a) w"
    by (simp add: resume_def)
  also have "\<dots> = finishStart h (st\<lparr>camera := fst (resumeCameraDetection (cameraResult a) w)\<rparr>)
                      (snd (resumeCameraDetection (cameraResult a) w))"
    by (simp add: resumeCamera_def split_beta)
  finally show ?thesis using True by (simp add: pend cam resume_finishStart)
next
  case False
  then have "continueWithCamera s h st w = finishStart h st w"
    by (simp add: continueWithCamera_def)
  then show ?thesis using False by (simp add: resume_finishStart resume_Finished)
qed

lemma resume3_continueWithMotion:
  "resume s h a (resume s h a (resume s h a (continueWithMotion s h st w))) =
     (if motionEnabled s
      then resume s h a (resume s h a
             (continueWithCamera s h (st\<lparr>motion := fst (motionDetection s h (motionPermission a) w)\<rparr>)
                (snd (motionDetection s h (motionPermission a) w))))
      else resume s h a (resume s h a (continueWithCamera s h st w)))"
proof (cases "motionEnabled s")
  case False
  have "resume s h a (resume s h a (resume s h a (continueWithCamera s h st w)))
        = resume s h a (resume s h a (continueWithCamera s h st w))"
    by (simp add: resume2_continueWithCamera resume_Finished)
  then show ?thesis using False by (simp add: continueWithMotion_def)
next
  case True
  show ?thesis
  proof (cases "motionPermissionGated h")
    case gated: True
    have "continueWithMotion s h st w = (w, MotionPermissionPending st)"
      using True gated by (simp add: continueWithMotion_def startMotionDetection_def)
    moreover have "motionDetection s h (motionPermission a) w
                   = resumeMotionDetection s (motionPermission a) w"
      using True gated by (simp add: motionDetection_def startMotionDetection_def)
    moreover have "resume s h a (w, MotionPermissionPending st)
         = continueWithCamera s h (st\<lparr>motion := fst (resumeMotionDetection s (motionPermission a) w)\<rparr>)
             (snd (resumeMotionDetection s (motionPermission a) w))"
      by (simp add: resume_def resumeMotionPermission_def split_beta)
    ultimately show ?thesis using True by simp
  next
    case False
    have md: "motionDetection s h (motionPermission a) w = attachMotion s w"
      using True False by (simp add: motionDetection_def startMotionDetection_def)
    have "continueWithMotion s h st w
          = continueWithCamera s h (st\<lparr>motion := fst (attachMotion s w)\<rparr>) (snd (attachMotion s w))"
      using True False by (simp add: continueWithMotion_def startMotionDetection_def split_beta)
    then show ?thesis using True
      by (simp add: md resume2_continueWithCamera resume_Finished)
  qed
qed

lemma runStart_sequence:
  assumes "capturedSettings rnd = Some s"
  shows "runStart rnd h a w = (startSequence rnd s h a w, Finished)"
  using assms
  by (simp add: runStart_def startBackgroundDetection_def startSequence_def Let_def split_beta
      resume3_continueWithMotion resume2_continueWithCamera noStatus_def)

section \<open>What each channel's start returns\<close>

lemmas channel_defs =
  startVoiceDetection_def motionDetection_def startMotionDetection_def resumeMotionDetection_def
  attachMotion_def cameraDetection_def startCameraDetection_def resumeCameraDetection_def
  addToast_def

lemma startVoiceDetection_result:
  "fst (startVoiceDetection rnd h w)
     = (settingsVoiceEnabled rnd \<and> speechAvailable h \<and> \<not> speechThrows h)"
  by (auto simp: startVoiceDetection_def Let_def)

lemma motionDetection_result:
  "fst (motionDetection s h p w)
     = (motionEnabled s \<and> (motionPermissionGated h \<longrightarrow> p = Granted))"
  by (simp add: channel_defs Let_def split: permissionResult.splits)

lemma cameraDetection_result:
  "fst (cameraDetection s m w)
     = ((blinkEnabled s \<or> gestureEnabled s) \<and> (\<exists>n. m = MediaStream n))"
  by (auto simp: channel_defs Let_def split: mediaResult.splits)

lemma startVoiceDetection_active:
  "isBackgroundActive (snd (startVoiceDetection rnd h w)) = isBackgroundActive w"
  by (simp add: startVoiceDetection_def Let_def)

lemma motionDetection_active:
  "isBackgroundActive (snd (motionDetection s h p w)) = isBackgroundActive w"
  by (simp add: channel_defs Let_def split: permissionResult.splits)

lemma cameraDetection_active:
  "isBackgroundActive (snd (cameraDetection s m w)) = isBackgroundActive w"
  by (simp add: channel_defs Let_def split: mediaResult.splits)

lemma startSequence_active: "isBackgroundActive (startSequence rnd s h a w)"
  by (simp add: startSequence_def Let_def split_beta addToast_def startVoiceDetection_active
      motionDetection_active cameraDetection_active)

lemma startSequence_status:
  assumes "capturedSettings rnd = Some s"
  shows "currentStatus (startSequence rnd s h a w) =
     \<lparr>voice = (voiceEnabled s \<and> speechAvailable h \<and> \<not> speechThrows h),
      motion = (motionEnabled s \<and> (motionPermissionGated h \<longrightarrow> motionPermission a = Granted)),
      camera = ((blinkEnabled s \<or> gestureEnabled s) \<and> (\<exists>n. cameraResult a = MediaStream n))\<rparr>"
  using assms
  by (simp add: startSequence_def Let_def split_beta addToast_def startVoiceDetection_result
      motionDetection_result cameraDetection_result settingsVoiceEnabled_def)

section \<open>Start: refusal without settings, and the active flag\<close>

text \<open>
  Claim C7. When the settings are absent, \<open>startBackgroundDetection\<close> returns at once: the
  only change of the state is one toast, titled \<open>Configuration Required\<close> and of the
  destructive variant; no state cell, ref, engine, listener or track is touched, and
  nothing waits to be resumed.
\<close>

theorem start_without_settings_refused:
  assumes "capturedSettings rnd = None"
  shows "startBackgroundDetection rnd h w
           = (w\<lparr>toasts := toasts w @ [configurationRequiredToast]\<rparr>, Finished) \<and>
         runStart rnd h a w
           = (w\<lparr>toasts := toasts w @ [configurationRequiredToast]\<rparr>, Finished) \<and>
         title configurationRequiredToast = ''Configuration Required'' \<and>
         variant configurationRequiredToast = Some ''destructive''"
  using assms
  by (simp add: startBackgroundDetection_def runStart_def addToast_def
      configurationRequiredToast_def)

theorem start_without_settings_refused_witness:
  "runStart noSettingsRender exHost grantAll initialWorld
     = (initialWorld\<lparr>toasts := [configurationRequiredToast]\<rparr>, Finished)"
proof -
  have "capturedSettings noSettingsRender = None"
    by (simp add: noSettingsRender_def)
  from start_without_settings_refused [OF this, of exHost initialWorld grantAll]
  show ?thesis by (simp add: initialWorld_def)
qed

text \<open>
  Claim C10. With any settings present, the first thing \<open>startBackgroundDetection\<close> does
  is to set \<open>isBackgroundActive\<close>, and it stays set to the end of the call, whatever the
  channels do. When every channel is disabled or fails to start, the call ends with an
  active session whose status is all false.
\<close>

theorem start_marks_session_active:
  assumes "capturedSettings rnd = Some s"
  shows "isBackgroundActive (fst (startBackgroundDetection rnd h w)) \<and>
         snd (runStart rnd h a w) = Finished \<and>
         isBackgroundActive (fst (runStart rnd h a w)) \<and>
         ((\<not> voiceEnabled s \<or> \<not> speechAvailable h \<or> speechThrows h) \<and>
          (\<not> motionEnabled s \<or> (motionPermissionGated h \<and> motionPermission a \<noteq> Granted)) \<and>
          (\<not> (blinkEnabled s \<or> gestureEnabled s) \<or> (\<forall>n. cameraResult a \<noteq> MediaStream n))
          \<longrightarrow> currentStatus (fst (runStart rnd h a w)) = noStatus)"
proof -
  have "isBackgroundActive (fst (startBackgroundDetection rnd h w))"
    using assms
    by (simp add: startBackgroundDetection_def Let_def split_beta continueWithMotion_def
        continueWithCamera_def finishStart_def addToast_def startVoiceDetection_active
        startMotionDetection_def attachMotion_def startCameraDetection_def)
  moreover have "(\<not> voiceEnabled s \<or> \<not> speechAvailable h \<or> speechThrows h) \<and>
          (\<not> motionEnabled s \<or> (motionPermissionGated h \<and> motionPermission a \<noteq> Granted)) \<and>
          (\<not> (blinkEnabled s \<or> gestureEnabled s) \<or> (\<forall>n. cameraResult a \<noteq> MediaStream n))
          \<longrightarrow> currentStatus (startSequence rnd s h a w) = noStatus"
    using startSequence_status [OF assms, of h a w] by (auto simp: noStatus_def)
  ultimately show ?thesis
    using startSequence_active [of rnd s h a w]
    by (simp add: runStart_sequence [OF assms])
qed

theorem start_marks_session_active_witness:
  "isBackgroundActive (fst (runStart (firstRender fullSettings) barrenHost denyAll initialWorld)) \<and>
   currentStatus (fst (runStart (firstRender fullSettings) barrenHost denyAll initialWorld))
     = noStatus \<and>
   \<not> isBackgroundActive initialWorld"
proof -
  have s: "capturedSettings (firstRender fullSettings) = Some fullSettings"
    by (simp add: firstRender_def)
  have "\<not> speechAvailable barrenHost" "motionPermissionGated barrenHost"
       "motionPermission denyAll \<noteq> Granted" "\<forall>n. cameraResult denyAll \<noteq> MediaStream n"
    by (simp_all add: barrenHost_def denyAll_def)
  then show ?thesis
    using start_marks_session_active [OF s, of barrenHost initialWorld denyAll]
    by (simp add: initialWorld_def)
qed

section \<open>What a start does to the browser's resources\<close>

lemmas start_splits = permissionResult.splits mediaResult.splits

lemma startSequence_engines:
  assumes "capturedSettings rnd = Some s"
  shows "startedEngines (startSequence rnd s h a w)
     = startedEngines w
       @ (if voiceEnabled s \<and> speechAvailable h \<and> \<not> speechThrows h then [nextId w] else [])"
  using assms
  by (simp add: startSequence_def channel_defs Let_def split_beta settingsVoiceEnabled_def
      split: start_splits)

lemma startSequence_speechRef:
  assumes "capturedSettings rnd = Some s"
  shows "speechRecognitionRef (startSequence rnd s h a w)
     = (if voiceEnabled s \<and> speechAvailable h \<and> \<not> speechThrows h
        then Some \<lparr>recId = nextId w, recRender = rnd\<rparr>
        else speechRecognitionRef w)"
  using assms
  by (simp add: startSequence_def channel_defs Let_def split_beta settingsVoiceEnabled_def
      split: start_splits)

lemma startSequence_listeners:
  assumes "capturedSettings rnd = Some s"
  shows "motionListeners (startSequence rnd s h a w)
     = motionListeners w @
         (if motionEnabled s \<and> (motionPermissionGated h \<longrightarrow> motionPermission a = Granted)
          then [\<lparr>listenerId = nextId w
                    + (if voiceEnabled s \<and> speechAvailable h \<and> \<not> speechThrows h then 1 else 0),
                 shakeThreshold = thresholdOf s, lastShakeTime = 0\<rparr>]
          else [])"
  using assms
  by (simp add: startSequence_def channel_defs Let_def split_beta settingsVoiceEnabled_def
      split: start_splits)

lemma startSequence_motionRef:
  assumes "capturedSettings rnd = Some s"
  shows "motionListenerRef (startSequence rnd s h a w)
     = (if motionEnabled s \<and> (motionPermissionGated h \<longrightarrow> motionPermission a = Granted)
        then Some (nextId w
               + (if voiceEnabled s \<and> speechAvailable h \<and> \<not> speechThrows h then 1 else 0))
        else motionListenerRef w)"
  using assms
  by (simp add: startSequence_def channel_defs Let_def split_beta settingsVoiceEnabled_def
      split: start_splits)

lemma startSequence_tracks:
  "liveTracks (startSequence rnd s h a w)
     = liveTracks w @
         (if blinkEnabled s \<or> gestureEnabled s
          then (case cameraResult a of
                  MediaStream n \<Rightarrow>
                    [nextId (startSequence rnd s h a w) - n ..< nextId (startSequence rnd s h a w)]
                | _ \<Rightarrow> [])
          else [])"
  by (simp add: startSequence_def channel_defs Let_def split_beta split: start_splits)

lemma startSequence_videoRef:
  "videoStreamRef (startSequence rnd s h a w)
     = (if blinkEnabled s \<or> gestureEnabled s
        then (case cameraResult a of
                MediaStream n \<Rightarrow>
                  Some [nextId (startSequence rnd s h a w) - n ..< nextId (startSequence rnd s h a w)]
              | _ \<Rightarrow> videoStreamRef w)
        else videoStreamRef w)"
  by (simp add: startSequence_def channel_defs Let_def split_beta split: start_splits)

lemma startSequence_toasts:
  "toasts (startSequence rnd s h a w)
     = toasts w
       @ (if motionEnabled s \<and> motionPermissionGated h \<and> motionPermission a = Denied
          then [motionDeniedToast] else [])
       @ (if (blinkEnabled s \<or> gestureEnabled s) \<and> cameraResult a = NotAllowedError
          then [cameraDeniedToast] else [])
       @ [detectionActiveToast]"
  by (simp add: startSequence_def channel_defs Let_def split_beta split: start_splits)

section \<open>Isolation of channel failures\<close>

text \<open>
  Claim C8. A start with settings always runs to its end, and each flag of the resulting
  status is decided by its own channel alone: voice by the speech capability, motion by
  the motion permission, camera by the answer of \<open>getUserMedia\<close>. A channel that has
  started is still tracked and in operation at the end of the call, whatever happened to
  the channels after it. In particular, when the camera is refused while voice and motion
  start, the status is voice and motion true, camera false, the session is active, and the
  refusal is reported by a toast.
\<close>

theorem channel_failures_are_isolated:
  assumes "capturedSettings rnd = Some s"
  shows "snd (runStart rnd h a w) = Finished \<and>
    voice (currentStatus (fst (runStart rnd h a w)))
      = (voiceEnabled s \<and> speechAvailable h \<and> \<not> speechThrows h) \<and>
    motion (currentStatus (fst (runStart rnd h a w)))
      = (motionEnabled s \<and> (motionPermissionGated h \<longrightarrow> motionPermission a = Granted)) \<and>
    camera (currentStatus (fst (runStart rnd h a w)))
      = ((blinkEnabled s \<or> gestureEnabled s) \<and> (\<exists>n. cameraResult a = MediaStream n)) \<and>
    (voice (currentStatus (fst (runStart rnd h a w))) \<longrightarrow>
       speechRecognitionRef (fst (runStart rnd h a w)) = Some \<lparr>recId = nextId w, recRender = rnd\<rparr> \<and>
       nextId w \<in> set (startedEngines (fst (runStart rnd h a w)))) \<and>
    (motion (currentStatus (fst (runStart rnd h a w))) \<longrightarrow>
       (\<exists>l \<in> set (motionListeners (fst (runStart rnd h a w))).
          motionListenerRef (fst (runStart rnd h a w)) = Some (listenerId l) \<and>
          shakeThreshold l = thresholdOf s)) \<and>
    (voiceEnabled s \<and> speechAvailable h \<and> \<not> speechThrows h \<and>
     motionEnabled s \<and> (motionPermissionGated h \<longrightarrow> motionPermission a = Granted) \<and>
     (blinkEnabled s \<or> gestureEnabled s) \<and> cameraResult a = NotAllowedError \<longrightarrow>
       currentStatus (fst (runStart rnd h a w)) = \<lparr>voice = True, motion = True, camera = False\<rparr> \<and>
       isBackgroundActive (fst (runStart rnd h a w)) \<and>
       cameraDeniedToast \<in> set (toasts (fst (runStart rnd h a w))))"
proof -
  have run: "runStart rnd h a w = (startSequence rnd s h a w, Finished)"
    by (rule runStart_sequence [OF assms])
  note st = startSequence_status [OF assms, of h a w]
  have v: "voice (currentStatus (startSequence rnd s h a w)) \<longrightarrow>
       speechRecognitionRef (startSequence rnd s h a w) = Some \<lparr>recId = nextId w, recRender = rnd\<rparr> \<and>
       nextId w \<in> set (startedEngines (startSequence rnd s h a w))"
    by (simp add: st startSequence_speechRef [OF assms] startSequence_engines [OF assms])
  have m: "motion (currentStatus (startSequence rnd s h a w)) \<longrightarrow>
       (\<exists>l \<in> set (motionListeners (startSequence rnd s h a w)).
          motionListenerRef (startSequence rnd s h a w) = Some (listenerId l) \<and>
          shakeThreshold l = thresholdOf s)"
    by (simp add: st startSequence_motionRef [OF assms] startSequence_listeners [OF assms])
  have sc: "voiceEnabled s \<and> speechAvailable h \<and> \<not> speechThrows h \<and>
     motionEnabled s \<and> (motionPermissionGated h \<longrightarrow> motionPermission a = Granted) \<and>
     (blinkEnabled s \<or> gestureEnabled s) \<and> cameraResult a = NotAllowedError \<longrightarrow>
       currentStatus (startSequence rnd s h a w) = \<lparr>voice = True, motion = True, camera = False\<rparr> \<and>
       isBackgroundActive (startSequence rnd s h a w) \<and>
       cameraDeniedToast \<in> set (toasts (startSequence rnd s h a w))"
    by (auto simp add: st startSequence_active startSequence_toasts)
  show ?thesis
    unfolding run fst_conv snd_conv using v m sc by (simp add: st)
qed

theorem channel_failures_are_isolated_witness:
  "currentStatus (fst (runStart (firstRender fullSettings) exHost denyCamera initialWorld))
     = \<lparr>voice = True, motion = True, camera = False\<rparr> \<and>
   isBackgroundActive (fst (runStart (firstRender fullSettings) exHost denyCamera initialWorld)) \<and>
   speechRecognitionRef (fst (runStart (firstRender fullSettings) exHost denyCamera initialWorld))
     = Some \<lparr>recId = 0, recRender = firstRender fullSettings\<rparr> \<and>
   0 \<in> set (startedEngines (fst (runStart (firstRender fullSettings) exHost denyCamera initialWorld)))"
proof -
  have s: "capturedSettings (firstRender fullSettings) = Some fullSettings"
    by (simp add: firstRender_def)
  have "voiceEnabled fullSettings" "speechAvailable exHost" "\<not> speechThrows exHost"
    "motionEnabled fullSettings" "motionPermission denyCamera = Granted"
    "blinkEnabled fullSettings" "cameraResult denyCamera = NotAllowedError"
    "nextId initialWorld = 0"
    by (simp_all add: fullSettings_def exSettings_def exHost_def denyCamera_def initialWorld_def)
  then show ?thesis
    using channel_failures_are_isolated [OF s, of exHost denyCamera initialWorld]
    by simp
qed

section \<open>Starting while a session is active\<close>

text \<open>
  Claim C3, amended. A start never stops or deregisters anything: every engine that was
  listening, every listener that was attached and every track that was live before the
  call is still so after it. Each channel that starts adds its new engine, listener or
  stream next to the old ones and overwrites the ref, so that the handles of the previous
  session are no longer tracked.
\<close>

theorem start_keeps_previous_channels:
  assumes "capturedSettings rnd = Some s"
  shows "prefix (startedEngines w) (startedEngines (fst (runStart rnd h a w))) \<and>
         prefix (motionListeners w) (motionListeners (fst (runStart rnd h a w))) \<and>
         prefix (liveTracks w) (liveTracks (fst (runStart rnd h a w))) \<and>
         (voice (currentStatus (fst (runStart rnd h a w))) \<longrightarrow>
            startedEngines (fst (runStart rnd h a w)) = startedEngines w @ [nextId w] \<and>
            speechRecognitionRef (fst (runStart rnd h a w))
              = Some \<lparr>recId = nextId w, recRender = rnd\<rparr>) \<and>
         (motion (currentStatus (fst (runStart rnd h a w))) \<longrightarrow>
            (\<exists>l. motionListeners (fst (runStart rnd h a w)) = motionListeners w @ [l] \<and>
                 motionListenerRef (fst (runStart rnd h a w)) = Some (listenerId l) \<and>
                 nextId w \<le> listenerId l)) \<and>
         (camera (currentStatus (fst (runStart rnd h a w))) \<longrightarrow>
            (\<exists>ts. liveTracks (fst (runStart rnd h a w)) = liveTracks w @ ts \<and>
                  videoStreamRef (fst (runStart rnd h a w)) = Some ts))"
proof -
  have run: "runStart rnd h a w = (startSequence rnd s h a w, Finished)"
    by (rule runStart_sequence [OF assms])
  note st = startSequence_status [OF assms, of h a w]
  show ?thesis
    unfolding run fst_conv
    by (auto simp: st startSequence_engines [OF assms] startSequence_speechRef [OF assms]
        startSequence_listeners [OF assms] startSequence_motionRef [OF assms]
        startSequence_tracks [of rnd s h a w] startSequence_videoRef [of rnd s h a w])
qed

lemma exStarted_eq:
  "exStarted = initialWorld
     \<lparr>isBackgroundActive := True,
      currentStatus := \<lparr>voice = True, motion = True, camera = True\<rparr>,
      speechRecognitionRef := Some \<lparr>recId = 0, recRender = firstRender fullSettings\<rparr>,
      motionListenerRef := Some 1,
      videoStreamRef := Some [2],
      startedEngines := [0],
      motionListeners := [\<lparr>listenerId = 1, shakeThreshold = 4, lastShakeTime = 0\<rparr>],
      liveTracks := [2],
      toasts := [detectionActiveToast],
      nextId := 3\<rparr>"
  by (simp add: exStarted_def runStart_sequence firstRender_def startSequence_def channel_defs
      Let_def fullSettings_def exSettings_def exHost_def grantAll_def initialWorld_def
      settingsVoiceEnabled_def thresholdOf_def)

section \<open>Stopping\<close>

text \<open>\<open>stopBackgroundDetection\<close> in one update of the state.\<close>

lemma stop_eq:
  "stopBackgroundDetection w =
     w\<lparr>isBackgroundActive := False,
       currentStatus := noStatus,
       speechRecognitionRef := None,
       motionListenerRef := None,
       videoStreamRef := None,
       startedEngines :=
         (case speechRecognitionRef w of
            None \<Rightarrow> startedEngines w
          | Some r \<Rightarrow> removeAll (recId r) (startedEngines w)),
       motionListeners :=
         (case motionListenerRef w of
            None \<Rightarrow> motionListeners w
          | Some i \<Rightarrow> filter (\<lambda>l. listenerId l \<noteq> i) (motionListeners w)),
       liveTracks :=
         (case videoStreamRef w of
            None \<Rightarrow> liveTracks w
          | Some ts \<Rightarrow> filter (\<lambda>t. t \<notin> set ts) (liveTracks w)),
       toasts := toasts w @ [detectionStoppedToast]\<rparr>"
  by (simp add: stopBackgroundDetection_def Let_def addToast_def split: option.splits)

lemma exRestarted_eq:
  "exRestarted = initialWorld
     \<lparr>isBackgroundActive := True,
      currentStatus := \<lparr>voice = True, motion = True, camera = True\<rparr>,
      speechRecognitionRef := Some \<lparr>recId = 3, recRender = activeRender fullSettings\<rparr>,
      motionListenerRef := Some 4,
      videoStreamRef := Some [5],
      startedEngines := [0, 3],
      motionListeners := [\<lparr>listenerId = 1, shakeThreshold = 4, lastShakeTime = 0\<rparr>,
                          \<lparr>listenerId = 4, shakeThreshold = 4, lastShakeTime = 0\<rparr>],
      liveTracks := [2, 5],
      toasts := [detectionActiveToast, detectionActiveToast],
      nextId := 6\<rparr>"
  by (simp add: exRestarted_def exStarted_eq runStart_sequence activeRender_def startSequence_def
      channel_defs Let_def fullSettings_def exSettings_def exHost_def grantAll_def
      initialWorld_def settingsVoiceEnabled_def thresholdOf_def)

text \<open>
  A second start after a first one, everything granted: the engine 0 of the first session
  is still listening next to the new engine 3, and the ref holds the new one only.
\<close>

theorem start_keeps_previous_channels_witness:
  "prefix (startedEngines exStarted) (startedEngines exRestarted) \<and>
   startedEngines exStarted = [0] \<and> startedEngines exRestarted = [0, 3] \<and>
   speechRecognitionRef exRestarted = Some \<lparr>recId = 3, recRender = activeRender fullSettings\<rparr>"
proof -
  have s: "capturedSettings (activeRender fullSettings) = Some fullSettings"
    by (simp add: activeRender_def)
  have "voice (currentStatus exRestarted)" "startedEngines exStarted = [0]" "nextId exStarted = 3"
    by (simp_all add: exRestarted_eq exStarted_eq initialWorld_def)
  then show ?thesis
    using start_keeps_previous_channels [OF s, of exStarted exHost grantAll]
    by (simp add: exRestarted_def)
qed

text \<open>
  The claim as stated fails: after the second start two listeners are attached, two
  engines listen and two tracks are live; a stop then releases only the second of each,
  and the first session's engine 0, listener 1 and track 2 stay for good. With the two
  listeners attached, one shake invokes the emergency callback twice.
\<close>

theorem restart_leaves_previous_channels_counterexample:
  "startedEngines exStarted = [0] \<and>
   map listenerId (motionListeners exStarted) = [1] \<and>
   liveTracks exStarted = [2] \<and>
   startedEngines exRestarted = [0, 3] \<and>
   map listenerId (motionListeners exRestarted) = [1, 4] \<and>
   liveTracks exRestarted = [2, 5] \<and>
   startedEngines (stopBackgroundDetection exRestarted) = [0] \<and>
   map listenerId (motionListeners (stopBackgroundDetection exRestarted)) = [1] \<and>
   liveTracks (stopBackgroundDetection exRestarted) = [2] \<and>
   emergencyCalls (devicemotion shake 10000 exRestarted) = 2"
  by (simp add: exStarted_eq exRestarted_eq stop_eq initialWorld_def devicemotion_def
      handleMotion_def shake_def totalAcceleration_shake)



lemma stop_state:
  "\<not> isBackgroundActive (stopBackgroundDetection w) \<and>
   currentStatus (stopBackgroundDetection w) = noStatus \<and>
   speechRecognitionRef (stopBackgroundDetection w) = None \<and>
   motionListenerRef (stopBackgroundDetection w) = None \<and>
   videoStreamRef (stopBackgroundDetection w) = None"
  by (simp add: stop_eq)

lemma stop_releases_engine:
  "speechRecognitionRef w = Some r \<Longrightarrow> recId r \<notin> set (startedEngines (stopBackgroundDetection w))"
  by (simp add: stop_eq)

lemma stop_releases_listener:
  "motionListenerRef w = Some i \<Longrightarrow>
   i \<notin> listenerId ` set (motionListeners (stopBackgroundDetection w))"
  by (auto simp: stop_eq)

lemma stop_releases_tracks:
  "videoStreamRef w = Some ts \<Longrightarrow> set ts \<inter> set (liveTracks (stopBackgroundDetection w)) = {}"
  by (auto simp: stop_eq)

lemma stop_stop:
  "stopBackgroundDetection (stopBackgroundDetection w)
     = (stopBackgroundDetection w)
         \<lparr>toasts := toasts (stopBackgroundDetection w) @ [detectionStoppedToast]\<rparr>"
  by (simp add: stop_eq)

lemma resumeMotionPermission_attaches:
  "motionListeners (fst (resumeMotionPermission s h st Granted w))
     = motionListeners w
       @ [\<lparr>listenerId = nextId w, shakeThreshold = thresholdOf s, lastShakeTime = 0\<rparr>] \<and>
   motionListenerRef (fst (resumeMotionPermission s h st Granted w)) = Some (nextId w)"
  by (simp add: resumeMotionPermission_def resumeMotionDetection_def attachMotion_def Let_def
      continueWithCamera_def finishStart_def addToast_def startCameraDetection_def)

lemma resumeCamera_stores_stream:
  "liveTracks (fst (resumeCamera h st (MediaStream n) w))
     = liveTracks w @ [nextId w ..< nextId w + n] \<and>
   videoStreamRef (fst (resumeCamera h st (MediaStream n) w)) = Some [nextId w ..< nextId w + n] \<and>
   camera (currentStatus (fst (resumeCamera h st (MediaStream n) w))) \<and>
   isBackgroundActive (fst (resumeCamera h st (MediaStream n) w)) = isBackgroundActive w"
  by (simp add: resumeCamera_def resumeCameraDetection_def Let_def finishStart_def addToast_def)

lemma stop_nextId: "nextId (stopBackgroundDetection w) = nextId w"
  by (simp add: stop_eq)

text \<open>
  Claim C4, amended. \<open>stopBackgroundDetection\<close> has no failing branch and can be called in
  any state; when it returns, the session is inactive, the status is all false, the three
  refs are empty, and every resource that the refs tracked is released: the tracked engine
  is not listening, the tracked listener is not attached, no track of the tracked stream is
  live. It does not cancel a start that waits for a permission: when the motion permission
  is granted or \<open>getUserMedia\<close> delivers a stream after the stop, the listener is attached
  or the stream is stored all the same, in a session that stays inactive.
\<close>

theorem stop_releases_tracked_resources:
  "\<not> isBackgroundActive (stopBackgroundDetection w) \<and>
   currentStatus (stopBackgroundDetection w) = noStatus \<and>
   speechRecognitionRef (stopBackgroundDetection w) = None \<and>
   motionListenerRef (stopBackgroundDetection w) = None \<and>
   videoStreamRef (stopBackgroundDetection w) = None \<and>
   (\<forall>r. speechRecognitionRef w = Some r \<longrightarrow>
        recId r \<notin> set (startedEngines (stopBackgroundDetection w))) \<and>
   (\<forall>i. motionListenerRef w = Some i \<longrightarrow>
        i \<notin> listenerId ` set (motionListeners (stopBackgroundDetection w))) \<and>
   (\<forall>ts. videoStreamRef w = Some ts \<longrightarrow>
        set ts \<inter> set (liveTracks (stopBackgroundDetection w)) = {}) \<and>
   motionListenerRef (fst (resumeMotionPermission s h st Granted (stopBackgroundDetection w)))
     = Some (nextId w) \<and>
   motionListeners (fst (resumeMotionPermission s h st Granted (stopBackgroundDetection w)))
     = motionListeners (stopBackgroundDetection w)
       @ [\<lparr>listenerId = nextId w, shakeThreshold = thresholdOf s, lastShakeTime = 0\<rparr>] \<and>
   videoStreamRef (fst (resumeCamera h st (MediaStream n) (stopBackgroundDetection w)))
     = Some [nextId w ..< nextId w + n] \<and>
   liveTracks (fst (resumeCamera h st (MediaStream n) (stopBackgroundDetection w)))
     = liveTracks (stopBackgroundDetection w) @ [nextId w ..< nextId w + n] \<and>
   camera (currentStatus (fst (resumeCamera h st (MediaStream n) (stopBackgroundDetection w)))) \<and>
   \<not> isBackgroundActive (fst (resumeCamera h st (MediaStream n) (stopBackgroundDetection w)))"
  using stop_state [of w] stop_releases_engine [of w] stop_releases_listener [of w]
    stop_releases_tracks [of w]
    resumeMotionPermission_attaches [of s h st "stopBackgroundDetection w"]
    resumeCamera_stores_stream [of h st n "stopBackgroundDetection w"]
  by (simp add: stop_nextId)

theorem stop_releases_tracked_resources_witness:
  "startedEngines exStarted = [0] \<and>
   speechRecognitionRef exStarted = Some \<lparr>recId = 0, recRender = firstRender fullSettings\<rparr> \<and>
   0 \<notin> set (startedEngines (stopBackgroundDetection exStarted)) \<and>
   1 \<notin> listenerId ` set (motionListeners (stopBackgroundDetection exStarted)) \<and>
   set [2] \<inter> set (liveTracks (stopBackgroundDetection exStarted)) = {} \<and>
   videoStreamRef (fst (resumeCamera exHost noStatus (MediaStream 1)
                          (stopBackgroundDetection exStarted))) = Some [3]"
proof -
  have "startedEngines exStarted = [0]"
    "speechRecognitionRef exStarted = Some \<lparr>recId = 0, recRender = firstRender fullSettings\<rparr>"
    "motionListenerRef exStarted = Some 1" "videoStreamRef exStarted = Some [2]"
    "nextId exStarted = 3"
    by (simp_all add: exStarted_eq initialWorld_def)
  then show ?thesis
    using stop_releases_tracked_resources
      [of exStarted fullSettings exHost noStatus 1]
    by simp
qed

text \<open>
  The claim as stated fails: a start waits for the motion permission, stop is called, and
  then the permission and the camera are granted. The listener 1 is attached and the
  track 2 is live and tracked, the status says that all three channels run, and the
  session is inactive.
\<close>

theorem stale_permission_starts_channel_counterexample:
  "snd exPending = MotionPermissionPending \<lparr>voice = True, motion = False, camera = False\<rparr> \<and>
   motionListeners (stopBackgroundDetection (fst exPending)) = [] \<and>
   liveTracks (stopBackgroundDetection (fst exPending)) = [] \<and>
   \<not> isBackgroundActive exStale \<and>
   map listenerId (motionListeners exStale) = [1] \<and>
   motionListenerRef exStale = Some 1 \<and>
   liveTracks exStale = [2] \<and>
   videoStreamRef exStale = Some [2] \<and>
   currentStatus exStale = \<lparr>voice = True, motion = True, camera = True\<rparr>"
proof -
  have p: "exPending =
     (initialWorld\<lparr>isBackgroundActive := True,
                   speechRecognitionRef := Some \<lparr>recId = 0, recRender = firstRender fullSettings\<rparr>,
                   startedEngines := [0], nextId := 1\<rparr>,
      MotionPermissionPending \<lparr>voice = True, motion = False, camera = False\<rparr>)"
    by (simp add: exPending_def startBackgroundDetection_def firstRender_def fullSettings_def
        exSettings_def exHost_def initialWorld_def startVoiceDetection_def settingsVoiceEnabled_def
        continueWithMotion_def startMotionDetection_def noStatus_def Let_def)
  show ?thesis
    by (simp add: exStale_def p stop_eq initialWorld_def resume_def resumeMotionPermission_def
        resumeMotionDetection_def attachMotion_def continueWithCamera_def startCameraDetection_def
        resumeCamera_def resumeCameraDetection_def finishStart_def addToast_def grantAll_def
        fullSettings_def exSettings_def exHost_def Let_def)
qed

text \<open>
  Claim C6, amended. \<open>stopBackgroundDetection\<close> has no failing branch. A second stop in a
  row changes nothing but the toasts, to which every call adds \<open>Background Detection
  Stopped\<close>; so does a stop before any start. After any stop the status is all false, the
  session is inactive, the refs are empty and every tracked channel is torn down, whether
  or not it was running.
\<close>

theorem stop_idempotent_up_to_toast:
  "stopBackgroundDetection (stopBackgroundDetection w)
     = (stopBackgroundDetection w)
         \<lparr>toasts := toasts (stopBackgroundDetection w) @ [detectionStoppedToast]\<rparr> \<and>
   stopBackgroundDetection initialWorld = initialWorld\<lparr>toasts := [detectionStoppedToast]\<rparr> \<and>
   currentStatus (stopBackgroundDetection w) = \<lparr>voice = False, motion = False, camera = False\<rparr> \<and>
   \<not> isBackgroundActive (stopBackgroundDetection w) \<and>
   speechRecognitionRef (stopBackgroundDetection w) = None \<and>
   motionListenerRef (stopBackgroundDetection w) = None \<and>
   videoStreamRef (stopBackgroundDetection w) = None \<and>
   (\<forall>r. speechRecognitionRef w = Some r \<longrightarrow>
        recId r \<notin> set (startedEngines (stopBackgroundDetection w))) \<and>
   (\<forall>i. motionListenerRef w = Some i \<longrightarrow>
        i \<notin> listenerId ` set (motionListeners (stopBackgroundDetection w))) \<and>
   (\<forall>ts. videoStreamRef w = Some ts \<longrightarrow>
        set ts \<inter> set (liveTracks (stopBackgroundDetection w)) = {})"
proof -
  have "stopBackgroundDetection initialWorld = initialWorld\<lparr>toasts := [detectionStoppedToast]\<rparr>"
    by (simp add: stop_eq initialWorld_def)
  then show ?thesis
    using stop_state [of w] stop_releases_engine [of w] stop_releases_listener [of w]
      stop_releases_tracks [of w] stop_stop [of w]
    by (simp add: noStatus_def)
qed

text \<open>Two stops after a start with everything granted.\<close>

theorem stop_idempotent_up_to_toast_witness:
  "currentStatus (stopBackgroundDetection (stopBackgroundDetection exStarted))
     = \<lparr>voice = False, motion = False, camera = False\<rparr> \<and>
   startedEngines (stopBackgroundDetection (stopBackgroundDetection exStarted)) = [] \<and>
   motionListeners (stopBackgroundDetection (stopBackgroundDetection exStarted)) = [] \<and>
   liveTracks (stopBackgroundDetection (stopBackgroundDetection exStarted)) = [] \<and>
   toasts (stopBackgroundDetection (stopBackgroundDetection exStarted))
     = [detectionActiveToast, detectionStoppedToast, detectionStoppedToast]"
proof -
  have "stopBackgroundDetection exStarted =
          initialWorld\<lparr>toasts := [detectionActiveToast, detectionStoppedToast], nextId := 3\<rparr>"
    by (simp add: stop_eq exStarted_eq initialWorld_def)
  then show ?thesis
    using stop_idempotent_up_to_toast [of exStarted]
    by (simp add: initialWorld_def noStatus_def)
qed

text \<open>
  The claim as stated fails: a stop before any start is not a no-op, it shows a toast, and
  a second stop shows another one.
\<close>

theorem stop_is_not_a_noop_counterexample:
  "stopBackgroundDetection initialWorld \<noteq> initialWorld \<and>
   toasts initialWorld = [] \<and>
   toasts (stopBackgroundDetection initialWorld) = [detectionStoppedToast] \<and>
   toasts (stopBackgroundDetection (stopBackgroundDetection initialWorld))
     = [detectionStoppedToast, detectionStoppedToast]"
proof -
  have "toasts (stopBackgroundDetection initialWorld) \<noteq> toasts initialWorld"
    by (simp add: stop_eq initialWorld_def)
  then have "stopBackgroundDetection initialWorld \<noteq> initialWorld"
    by auto
  then show ?thesis
    by (simp add: stop_eq initialWorld_def)
qed

section \<open>Voice channel: restart after the engine ends\<close>

text \<open>
  When the handler's render had \<open>isBackgroundActive\<close> set and voice enabled, the end of the
  engine schedules one restart 1000 ms later, and neither the handler nor the restart
  invokes the emergency callback.
\<close>

lemma onend_schedules_restart:
  "onend r w =
     (if capturedActive (recRender r) \<and> settingsVoiceEnabled (recRender r)
      then w\<lparr>timers := timers w @ [(1000, r)]\<rparr> else w)"
  by (simp add: onend_def)

lemma restart_keeps_emergencyCalls:
  "emergencyCalls (onend r w) = emergencyCalls w \<and>
   emergencyCalls (engineEnded r w) = emergencyCalls w \<and>
   emergencyCalls (restartTimer throws r w) = emergencyCalls w"
  by (simp add: onend_def engineEnded_def restartTimer_def Let_def)

lemma restart_after_end:
  "capturedActive (recRender r) \<Longrightarrow> settingsVoiceEnabled (recRender r) \<Longrightarrow>
   timers (engineEnded r w) = timers w @ [(1000, r)] \<and>
   recId r \<in> set (startedEngines (restartTimer False r (engineEnded r w)))"
  by (simp add: onend_def engineEnded_def restartTimer_def Let_def)

text \<open>
  Claim C5, at the input where the code departs from it. The hook has never been started,
  so the render that creates the handlers has \<open>isBackgroundActive = False\<close>. After the
  start the state cell is true and the voice channel runs; when its engine ends, \<open>onend\<close>
  still reads the captured \<open>False\<close>: no timer is scheduled and no engine listens any more.
\<close>

theorem voice_not_restarted_after_first_start:
  "\<not> isBackgroundActive initialWorld \<and>
   isBackgroundActive exVoiceStarted \<and>
   voice (currentStatus exVoiceStarted) \<and>
   speechRecognitionRef exVoiceStarted = Some exEngine \<and>
   startedEngines exVoiceStarted = [0] \<and>
   timers (engineEnded exEngine exVoiceStarted) = [] \<and>
   startedEngines (engineEnded exEngine exVoiceStarted) = []"
  by (simp add: exVoiceStarted_def exEngine_def runStart_sequence firstRender_def
      startSequence_def channel_defs Let_def exSettings_def exHost_def grantAll_def
      initialWorld_def settingsVoiceEnabled_def engineEnded_def onend_def)

section \<open>The service worker's alert\<close>

text \<open>\<open>showNat\<close> prints the decimal digits of its argument: reading them gives it back.\<close>

lemma readNat_snoc: "readNat (cs @ [c]) = 10 * readNat cs + (of_char c - 48)"
  by (simp add: readNat_def)

lemma readNat_digit: "d < 10 \<Longrightarrow> (of_char (char_of (48 + d) :: char) :: nat) - 48 = d"
  by simp

lemma readNat_showNat: "readNat (showNat n) = n"
proof (induction n rule: showNat.induct)
  case (1 n)
  show ?case
  proof (cases "n < 10")
    case True
    then have "showNat n = [char_of (48 + n)]" by (subst showNat.simps) simp
    then show ?thesis using True by (simp add: readNat_def)
  next
    case False
    then have eq: "showNat n = showNat (n div 10) @ [char_of (48 + n mod 10)]"
      by (subst showNat.simps) simp
    have "readNat (showNat n) = 10 * readNat (showNat (n div 10)) + n mod 10"
      unfolding eq readNat_snoc by simp
    with "1.IH" False show ?thesis by simp
  qed
qed

text \<open>
  Claim C9. A message of type \<open>EMERGENCY_TRIGGERED\<close> with the payload \<open>contactCount = n\<close>
  makes the worker call \<open>showNotification\<close> exactly once: with the fixed title, a body that
  carries the decimal digits of \<open>n\<close> between two fixed pieces of text, and the single action
  \<open>view\<close>. A message of any other type, and an event without data, show nothing.
\<close>

theorem emergency_message_shows_one_notification:
  "onmessage (Some (alertMessage n)) shown =
     shown @
       [\<lparr>notificationTitle = alertTitle,
         body = ''Alert sent to '' @ showNat n @ '' emergency contacts'',
         icon = ''/favicon.ico'',
         badge = ''/favicon.ico'',
         vibrate = [200, 100, 200],
         requireInteraction = True,
         actions = [\<lparr>action = ''view'', actionTitle = ''View Details''\<rparr>]\<rparr>] \<and>
   readNat (showNat n) = n \<and>
   (messageType m \<noteq> ''EMERGENCY_TRIGGERED'' \<longrightarrow> onmessage (Some m) shown = shown) \<and>
   onmessage None shown = shown"
  by (simp add: onmessage_def handleEmergencyAlert_def alertMessage_def readNat_showNat)


text \<open>Twelve contacts, and a message of another type.\<close>

theorem emergency_message_shows_one_notification_witness:
  "map body (onmessage (Some (alertMessage 12)) []) = [''Alert sent to 12 emergency contacts''] \<and>
   map (map action \<circ> actions) (onmessage (Some (alertMessage 12)) []) = [[''view'']] \<and>
   onmessage (Some \<lparr>messageType = ''SKIP_WAITING'', payload = None\<rparr>) [] = []"
proof -
  have "showNat 12 = ''12''" by code_simp
  moreover have "messageType \<lparr>messageType = ''SKIP_WAITING'', payload = None\<rparr> \<noteq> ''EMERGENCY_TRIGGERED''"
    by simp
  ultimately show ?thesis
    using emergency_message_shows_one_notification
      [of 12 "[]" "\<lparr>messageType = ''SKIP_WAITING'', payload = None\<rparr>"]
    by simp
qed

end
